theory Spec2Isabelle
  imports Complex_Main "HOL-Library.Multiset" "HOL-Library.Sublist"
begin

section \<open>Data model\<close>

text \<open>
  The server keeps three pieces of shared state: the \<open>Scan\<close> collection, the \<open>User\<close>
  collection and the files of the uploads directory. An ObjectId is modelled by its text,
  a \<open>Date\<close> by its millisecond count, a JavaScript number by a real (an integer where the
  code only produces integers).
\<close>

type_synonym oid = string
type_synonym date = int

text \<open>JSON values as \<open>res.json\<close> sends them; \<open>JDate\<close> stands for the ISO text of an instant.\<close>

datatype json =
    JNull
  | JBool bool
  | JNum real
  | JStr string
  | JDate date
  | JArr "json list"
  | JObj "(string \<times> json) list"

record response =
  status :: nat
  body :: json

text \<open>\<open>analysisMetadata\<close> of \<open>models/Scan.ts\<close>.\<close>

record analysis_metadata =
  processingTime :: int
  modelVersion :: string
  confidence :: real

text \<open>A stored document of the \<open>Scan\<close> collection (\<open>IScan\<close>).\<close>

record scan =
  scan_id :: oid
  userId :: oid
  fileName :: string
  fileType :: string
  filePath :: string
  fileSize :: nat
  analysisDate :: date
  qualityScore :: int
  freshness :: string
  nutritionalValue :: string
  recommendations :: "string list"
  warnings :: "string list"
  analysisMetadata :: analysis_metadata
  createdAt :: date
  updatedAt :: date

text \<open>
  A stored document of the \<open>User\<close> collection. \<open>models/User.ts\<close> is not among the
  sources; the fields are the ones the routes read.
\<close>

record user =
  user_id :: oid
  user_name :: string
  user_email :: string
  user_password :: string
  user_createdAt :: date
  user_updatedAt :: date

text \<open>
  The world: both collections in storage order, and the names of the files present in
  \<open>uploadsDir\<close>. Every path the routes touch is \<open>path.join(uploadsDir, name)\<close> for a
  plain file name, so a file is identified by that name.
\<close>

record world =
  scans :: "scan list"
  users :: "user list"
  uploads :: "string set"

text \<open>
  A thrown error, with the properties the handlers and the error middleware read:
  \<open>name\<close>, \<open>code\<close>, \<open>message\<close>, \<open>status\<close> and, for a validation error, the messages
  of \<open>errors\<close>.
\<close>

record js_error =
  err_name :: string
  err_code :: "string option"
  err_message :: string
  err_status :: "nat option"
  err_errors :: "string list"

text \<open>
  Calls that can throw or reject inside a handler's \<open>try\<close>. Each flag says whether the
  call fails in the request at hand: a query of the \<open>Scan\<close> collection
  (\<open>find\<close>, \<open>findOne\<close>; the store is unreachable, or the id of the request does not cast to
  an ObjectId), \<open>countDocuments\<close>, a deletion from the \<open>Scan\<close> collection, a lookup of a
  user, a deletion of a user, \<open>fs.unlinkSync\<close>, the analysis and the insert of \<open>save\<close>
  (with the error they reject with).
\<close>

record faults =
  scanFindThrows :: bool
  scanCountThrows :: bool
  scanDeleteThrows :: bool
  userFindThrows :: bool
  userDeleteThrows :: bool
  unlinkThrows :: bool
  analysisRejects :: "js_error option"
  saveRejects :: "js_error option"

section \<open>Responses\<close>

definition failure :: "nat \<Rightarrow> string \<Rightarrow> response" where
  "failure st msg =
     \<lparr>status = st, body = JObj [(''success'', JBool False), (''message'', JStr msg)]\<rparr>"

definition success_message :: "string \<Rightarrow> response" where
  "success_message msg =
     \<lparr>status = 200, body = JObj [(''success'', JBool True), (''message'', JStr msg)]\<rparr>"

definition success_data :: "json \<Rightarrow> response" where
  "success_data d = \<lparr>status = 200, body = JObj [(''success'', JBool True), (''data'', d)]\<rparr>"

definition notAuthenticated :: response where
  "notAuthenticated = failure 401 ''User not authenticated''"

definition scanNotFound :: response where
  "scanNotFound = failure 404 ''Scan not found''"

section \<open>Documents and their JSON form\<close>

text \<open>
  A Mongoose document as the list of its selected paths. \<open>select('-filePath')\<close> drops a
  path; the \<open>fileUrl\<close> virtual reads \<open>this.filePath\<close> in a template literal, which
  prints \<open>undefined\<close> when the path is not selected; \<open>toJSON\<close> (with
  \<open>virtuals: true\<close>) adds the virtuals \<open>fileUrl\<close> and \<open>id\<close>.
\<close>

type_synonym doc = "(string \<times> json) list"

definition metadata_json :: "analysis_metadata \<Rightarrow> json" where
  "metadata_json m =
     JObj [(''processingTime'', JNum (of_int (processingTime m))),
           (''modelVersion'', JStr (modelVersion m)),
           (''confidence'', JNum (confidence m))]"

definition scan_doc :: "scan \<Rightarrow> doc" where
  "scan_doc s =
     [(''_id'', JStr (scan_id s)),
      (''userId'', JStr (userId s)),
      (''fileName'', JStr (fileName s)),
      (''fileType'', JStr (fileType s)),
      (''filePath'', JStr (filePath s)),
      (''fileSize'', JNum (of_nat (fileSize s))),
      (''analysisDate'', JDate (analysisDate s)),
      (''qualityScore'', JNum (of_int (qualityScore s))),
      (''freshness'', JStr (freshness s)),
      (''nutritionalValue'', JStr (nutritionalValue s)),
      (''recommendations'', JArr (map JStr (recommendations s))),
      (''warnings'', JArr (map JStr (warnings s))),
      (''analysisMetadata'', metadata_json (analysisMetadata s)),
      (''createdAt'', JDate (createdAt s)),
      (''updatedAt'', JDate (updatedAt s)),
      (''__v'', JNum 0)]"

definition select_minus :: "string \<Rightarrow> doc \<Rightarrow> doc" where
  "select_minus p d = filter (\<lambda>kv. fst kv \<noteq> p) d"

definition template_string :: "json option \<Rightarrow> string" where
  "template_string v = (case v of Some (JStr s) \<Rightarrow> s | _ \<Rightarrow> ''undefined'')"

definition fileUrl :: "doc \<Rightarrow> string" where
  "fileUrl d = ''/uploads/'' @ template_string (map_of d ''filePath'')"

definition toJSON :: "doc \<Rightarrow> json" where
  "toJSON d =
     JObj (d @ [(''fileUrl'', JStr (fileUrl d)),
                (''id'', (case map_of d ''_id'' of Some v \<Rightarrow> v | None \<Rightarrow> JNull))])"

section \<open>Queries on the Scan collection\<close>

text \<open>
  The filter object of \<open>GET /history\<close>: \<open>userId\<close> always, \<open>freshness\<close> and
  \<open>qualityScore\<close> when set; \<open>qualityScore\<close> is an object with optional \<open>$gte\<close> and
  \<open>$lte\<close>.
\<close>

record score_range =
  gte :: "int option"
  lte :: "int option"

record filters =
  f_userId :: oid
  f_freshness :: "string option"
  f_qualityScore :: "score_range option"

text \<open>
  The query string after \<open>parseInt\<close>: for \<open>page\<close> and \<open>limit\<close>, \<open>None\<close> is an absent
  or non-numeric parameter (\<open>NaN\<close>); for \<open>minScore\<close> and \<open>maxScore\<close>, \<open>None\<close> is an
  absent or empty parameter and \<open>Some n\<close> a numeric one.
\<close>

record history_query =
  q_page :: "int option"
  q_limit :: "int option"
  q_freshness :: "string option"
  q_minScore :: "int option"
  q_maxScore :: "int option"

definition in_range :: "score_range \<Rightarrow> int \<Rightarrow> bool" where
  "in_range r x =
     ((case gte r of None \<Rightarrow> True | Some lo \<Rightarrow> lo \<le> x) \<and>
      (case lte r of None \<Rightarrow> True | Some hi \<Rightarrow> x \<le> hi))"

definition matches :: "filters \<Rightarrow> scan \<Rightarrow> bool" where
  "matches f s =
     (userId s = f_userId f \<and>
      (case f_freshness f of None \<Rightarrow> True | Some x \<Rightarrow> freshness s = x) \<and>
      (case f_qualityScore f of None \<Rightarrow> True | Some r \<Rightarrow> in_range r (qualityScore s)))"

text \<open>
  The filter construction of the handler, statement by statement: a truthy \<open>freshness\<close>
  (a non-empty string) sets \<open>filters.freshness\<close>; \<open>minScore\<close> sets
  \<open>filters.qualityScore = {$gte}\<close>; \<open>maxScore\<close> spreads the previous
  \<open>filters.qualityScore\<close> and adds \<open>$lte\<close>.
\<close>

definition build_filters :: "oid \<Rightarrow> history_query \<Rightarrow> filters" where
  "build_filters uid q =
     (let f0 = \<lparr>f_userId = uid, f_freshness = None, f_qualityScore = None\<rparr>;
          f1 = (case q_freshness q of
                  None \<Rightarrow> f0
                | Some x \<Rightarrow> if x = [] then f0 else f0\<lparr>f_freshness := Some x\<rparr>);
          f2 = (case q_minScore q of
                  None \<Rightarrow> f1
                | Some n \<Rightarrow> f1\<lparr>f_qualityScore := Some \<lparr>gte = Some n, lte = None\<rparr>\<rparr>);
          f3 = (case q_maxScore q of
                  None \<Rightarrow> f2
                | Some n \<Rightarrow>
                    f2\<lparr>f_qualityScore :=
                         Some ((case f_qualityScore f2 of
                                  None \<Rightarrow> \<lparr>gte = None, lte = None\<rparr>
                                | Some r \<Rightarrow> r)\<lparr>lte := Some n\<rparr>)\<rparr>)
      in f3)"

text \<open>
  \<open>Scan.find(filters).sort({ createdAt: -1 })\<close>: the matching documents, newest first.
  The sort has the one key \<open>createdAt\<close>, and the store fixes no order among documents
  with equal \<open>createdAt\<close>: it can differ from one query to the next. \<open>rank\<close> is the
  order in which the store comes upon the documents in the query at hand, by \<open>_id\<close>;
  documents with equal \<open>createdAt\<close> are returned in that order. Every query has a
  \<open>rank\<close> of its own.
\<close>

definition Scan_find_sorted :: "(oid \<Rightarrow> nat) \<Rightarrow> filters \<Rightarrow> scan list \<Rightarrow> scan list" where
  "Scan_find_sorted rank f db =
     sort_key (\<lambda>s. - createdAt s) (sort_key (\<lambda>s. rank (scan_id s)) (filter (matches f) db))"

definition countDocuments :: "filters \<Rightarrow> scan list \<Rightarrow> nat" where
  "countDocuments f db = length (filter (matches f) db)"

text \<open>\<open>parseInt(...) || d\<close>: \<open>NaN\<close> and \<open>0\<close> are falsy.\<close>

definition or_default :: "int option \<Rightarrow> int \<Rightarrow> int" where
  "or_default v d = (case v of None \<Rightarrow> d | Some n \<Rightarrow> if n = 0 then d else n)"

definition page_of :: "history_query \<Rightarrow> int" where
  "page_of q = or_default (q_page q) 1"

definition limit_of :: "history_query \<Rightarrow> int" where
  "limit_of q = or_default (q_limit q) 10"

definition skip_of :: "history_query \<Rightarrow> int" where
  "skip_of q = (page_of q - 1) * limit_of q"

text \<open>
  \<open>.skip(skip).limit(limit)\<close> on the sorted matches. A negative \<open>limit\<close> is read by the
  driver as its absolute value; a negative \<open>skip\<close> is rejected (see \<open>history_handler\<close>).
\<close>

definition history_page ::
  "(oid \<Rightarrow> nat) \<Rightarrow> oid \<Rightarrow> history_query \<Rightarrow> scan list \<Rightarrow> scan list" where
  "history_page rank uid q db =
     take (nat \<bar>limit_of q\<bar>)
       (drop (nat (skip_of q)) (Scan_find_sorted rank (build_filters uid q) db))"

text \<open>\<open>Math.ceil(total / limit)\<close>; \<open>limit\<close> is never 0.\<close>

definition pages_of :: "nat \<Rightarrow> int \<Rightarrow> int" where
  "pages_of tot limit = \<lceil>real tot / real_of_int limit\<rceil>"

definition pagination_json :: "int \<Rightarrow> int \<Rightarrow> nat \<Rightarrow> json" where
  "pagination_json page limit tot =
     JObj [(''page'', JNum (of_int page)),
           (''limit'', JNum (of_int limit)),
           (''total'', JNum (of_nat tot)),
           (''pages'', JNum (of_int (pages_of tot limit)))]"

text \<open>
  The document as \<open>GET /history\<close> and \<open>GET /:scanId\<close> serialise it: selected without
  \<open>filePath\<close>, then \<open>toJSON\<close>.
\<close>

abbreviation public_doc :: "scan \<Rightarrow> json" where
  "public_doc s \<equiv> toJSON (select_minus ''filePath'' (scan_doc s))"

text \<open>
  \<open>GET /history\<close>, after \<open>authenticateToken\<close> (\<open>usr\<close> is \<open>req.user\<close>); \<open>rank\<close> is the
  store's order in this request's query.
\<close>

definition history_handler ::
  "faults \<Rightarrow> (oid \<Rightarrow> nat) \<Rightarrow> world \<Rightarrow> user option \<Rightarrow> history_query \<Rightarrow> response" where
  "history_handler fl rank w usr q =
     (case usr of
        None \<Rightarrow> notAuthenticated
      | Some u \<Rightarrow>
          if scanFindThrows fl \<or> skip_of q < 0 \<or> scanCountThrows fl
          then failure 500 ''Internal server error while fetching history''
          else success_data
                 (JObj [(''scans'',
                           JArr (map (\<lambda>s. toJSON (select_minus ''filePath'' (scan_doc s)))
                                   (history_page rank (user_id u) q (scans w)))),
                        (''pagination'',
                           pagination_json (page_of q) (limit_of q)
                             (countDocuments (build_filters (user_id u) q) (scans w)))]))"

section \<open>Point lookup and deletion of a scan\<close>

text \<open>\<open>Scan.findOne({ _id: scanId, userId: req.user._id })\<close>: the first document with both.\<close>

definition Scan_findOne :: "oid \<Rightarrow> oid \<Rightarrow> scan list \<Rightarrow> scan option" where
  "Scan_findOne i uid db = find (\<lambda>s. scan_id s = i \<and> userId s = uid) db"

text \<open>\<open>findByIdAndDelete\<close> removes the first document that matches, and only that one.\<close>

fun delete_first :: "('a \<Rightarrow> bool) \<Rightarrow> 'a list \<Rightarrow> 'a list" where
  "delete_first P [] = []"
| "delete_first P (x # xs) = (if P x then xs else x # delete_first P xs)"

definition Scan_findByIdAndDelete :: "oid \<Rightarrow> scan list \<Rightarrow> scan list" where
  "Scan_findByIdAndDelete i db = delete_first (\<lambda>s. scan_id s = i) db"

text \<open>\<open>fs.existsSync\<close> and \<open>fs.unlinkSync\<close> on a file of the uploads directory.\<close>

definition existsSync :: "world \<Rightarrow> string \<Rightarrow> bool" where
  "existsSync w name = (name \<in> uploads w)"

definition unlinkSync :: "world \<Rightarrow> string \<Rightarrow> world" where
  "unlinkSync w name = w\<lparr>uploads := uploads w - {name}\<rparr>"

text \<open>\<open>GET /:scanId\<close>, after \<open>authenticateToken\<close>.\<close>

definition getById_handler :: "faults \<Rightarrow> world \<Rightarrow> user option \<Rightarrow> oid \<Rightarrow> response" where
  "getById_handler fl w usr i =
     (case usr of
        None \<Rightarrow> notAuthenticated
      | Some u \<Rightarrow>
          if scanFindThrows fl
          then failure 500 ''Internal server error while fetching scan''
          else (case Scan_findOne i (user_id u) (scans w) of
                  None \<Rightarrow> scanNotFound
                | Some s \<Rightarrow> success_data (toJSON (select_minus ''filePath'' (scan_doc s)))))"

text \<open>
  \<open>DELETE /:scanId\<close>, after \<open>authenticateToken\<close>: look the document up, unlink its file
  when it exists, then delete the document; anything thrown on the way is caught and
  answered with 500, leaving what was already done.
\<close>

definition delete_failed :: response where
  "delete_failed = failure 500 ''Internal server error while deleting scan''"

definition delete_handler :: "faults \<Rightarrow> world \<Rightarrow> user option \<Rightarrow> oid \<Rightarrow> response \<times> world" where
  "delete_handler fl w usr i =
     (case usr of
        None \<Rightarrow> (notAuthenticated, w)
      | Some u \<Rightarrow>
          if scanFindThrows fl then (delete_failed, w)
          else (case Scan_findOne i (user_id u) (scans w) of
                  None \<Rightarrow> (scanNotFound, w)
                | Some s \<Rightarrow>
                    if existsSync w (filePath s) \<and> unlinkThrows fl then (delete_failed, w)
                    else
                      let w1 = (if existsSync w (filePath s) then unlinkSync w (filePath s) else w)
                      in if scanDeleteThrows fl then (delete_failed, w1)
                         else (success_message ''Scan deleted successfully'',
                               w1\<lparr>scans := Scan_findByIdAndDelete (scan_id s) (scans w1)\<rparr>)))"

section \<open>Account deletion\<close>

definition User_findById :: "oid \<Rightarrow> user list \<Rightarrow> user option" where
  "User_findById i db = find (\<lambda>u. user_id u = i) db"

definition account_failed :: response where
  "account_failed = failure 500 ''Internal server error while deleting account''"

text \<open>
  \<open>DELETE /account\<close>, after \<open>authenticateToken\<close>. \<open>pw\<close> is \<open>req.body.password\<close>
  (\<open>None\<close> when absent). \<open>comparePassword\<close> is a method of the User model, which is not
  among the sources: it is a parameter.
\<close>

definition account_delete_handler ::
  "(user \<Rightarrow> string \<Rightarrow> bool) \<Rightarrow> faults \<Rightarrow> world \<Rightarrow> user option \<Rightarrow> string option
     \<Rightarrow> response \<times> world" where
  "account_delete_handler comparePassword fl w usr pw =
     (case usr of
        None \<Rightarrow> (notAuthenticated, w)
      | Some u \<Rightarrow>
          if pw = None \<or> pw = Some []
          then (failure 400 ''Password is required to delete account'', w)
          else if userFindThrows fl then (account_failed, w)
          else (case User_findById (user_id u) (users w) of
                  None \<Rightarrow> (failure 404 ''User not found'', w)
                | Some found \<Rightarrow>
                    if \<not> comparePassword found (the pw)
                    then (failure 401 ''Invalid password'', w)
                    else if scanDeleteThrows fl then (account_failed, w)
                    else
                      let w1 = w\<lparr>scans := filter (\<lambda>s. userId s \<noteq> user_id u) (scans w)\<rparr>
                      in if userDeleteThrows fl then (account_failed, w1)
                         else (success_message ''Account deleted successfully'',
                               w1\<lparr>users :=
                                    delete_first (\<lambda>x. user_id x = user_id u) (users w1)\<rparr>)))"

section \<open>Authentication middleware\<close>

text \<open>\<open>String.prototype.split(' ')\<close>.\<close>

fun split_space :: "string \<Rightarrow> string list" where
  "split_space [] = [[]]"
| "split_space (c # cs) =
     (if c = CHR '' '' then [] # split_space cs
      else (case split_space cs of
              [] \<Rightarrow> [[c]]
            | p # ps \<Rightarrow> (c # p) # ps))"

text \<open>\<open>xs[i]\<close> of JavaScript: \<open>undefined\<close> (here \<open>None\<close>) out of range.\<close>

definition js_index :: "'a list \<Rightarrow> int \<Rightarrow> 'a option" where
  "js_index xs i = (if 0 \<le> i \<and> i < int (length xs) then Some (xs ! nat i) else None)"

text \<open>
  What \<open>jwt.verify(token, secret)\<close> gives: the payload's \<open>userId\<close>, or an error thrown
  under a name. The library is a parameter of the middleware.
\<close>

datatype jwt_result = Decoded oid | JwtThrows string

record auth_env =
  jwtSecret :: "string option"
  jwt_verify :: "string \<Rightarrow> string \<Rightarrow> jwt_result"

definition auth_failed :: response where
  "auth_failed = failure 500 ''Authentication failed''"

text \<open>
  \<open>authenticateToken\<close>: \<open>Inl\<close> is the response the middleware sends itself, \<open>Inr u\<close> is
  \<open>next()\<close> with \<open>req.user = u\<close>. \<open>hdr\<close> is the \<open>Authorization\<close> header.
\<close>

definition authenticateToken ::
  "auth_env \<Rightarrow> faults \<Rightarrow> world \<Rightarrow> string option \<Rightarrow> response + user" where
  "authenticateToken env fl w hdr =
     (let token = (case hdr of
                     None \<Rightarrow> None
                   | Some h \<Rightarrow> if h = [] then None else js_index (split_space h) 1)
      in if token = None \<or> token = Some []
         then Inl (failure 401 ''Access token is required'')
         else if jwtSecret env = None \<or> jwtSecret env = Some [] then Inl auth_failed
         else (case jwt_verify env (the token) (the (jwtSecret env)) of
                 JwtThrows n \<Rightarrow>
                   if n = ''JsonWebTokenError'' then Inl (failure 401 ''Invalid token'')
                   else if n = ''TokenExpiredError'' then Inl (failure 401 ''Token expired'')
                   else Inl auth_failed
               | Decoded uid \<Rightarrow>
                   if userFindThrows fl then Inl auth_failed
                   else (case User_findById uid (users w) of
                           None \<Rightarrow> Inl (failure 401 ''Invalid token - user not found'')
                         | Some u \<Rightarrow> Inr u)))"

text \<open>The routes \<open>GET /:scanId\<close>, \<open>DELETE /:scanId\<close>, \<open>GET /history\<close> and \<open>DELETE /account\<close>.\<close>

definition get_scan_route ::
  "auth_env \<Rightarrow> faults \<Rightarrow> world \<Rightarrow> string option \<Rightarrow> oid \<Rightarrow> response" where
  "get_scan_route env fl w hdr i =
     (case authenticateToken env fl w hdr of
        Inl r \<Rightarrow> r
      | Inr u \<Rightarrow> getById_handler fl w (Some u) i)"

definition delete_scan_route ::
  "auth_env \<Rightarrow> faults \<Rightarrow> world \<Rightarrow> string option \<Rightarrow> oid \<Rightarrow> response \<times> world" where
  "delete_scan_route env fl w hdr i =
     (case authenticateToken env fl w hdr of
        Inl r \<Rightarrow> (r, w)
      | Inr u \<Rightarrow> delete_handler fl w (Some u) i)"

definition history_route ::
  "auth_env \<Rightarrow> faults \<Rightarrow> (oid \<Rightarrow> nat) \<Rightarrow> world \<Rightarrow> string option \<Rightarrow> history_query
     \<Rightarrow> response" where
  "history_route env fl rank w hdr q =
     (case authenticateToken env fl w hdr of
        Inl r \<Rightarrow> r
      | Inr u \<Rightarrow> history_handler fl rank w (Some u) q)"

definition account_delete_route ::
  "(user \<Rightarrow> string \<Rightarrow> bool) \<Rightarrow> auth_env \<Rightarrow> faults \<Rightarrow> world \<Rightarrow> string option \<Rightarrow> string option
     \<Rightarrow> response \<times> world" where
  "account_delete_route comparePassword env fl w hdr pw =
     (case authenticateToken env fl w hdr of
        Inl r \<Rightarrow> (r, w)
      | Inr u \<Rightarrow> account_delete_handler comparePassword fl w (Some u) pw)"

section \<open>Upload and analysis\<close>

text \<open>
  The multipart part under the field \<open>file\<close>, and \<open>req.file\<close> as multer fills it once the
  part is stored. \<open>req.file.path\<close> is \<open>path.join(uploadsDir, filename)\<close>, the file named
  \<open>mf_filename\<close> of the uploads directory.
\<close>

record file_part =
  originalname :: string
  mimetype :: string
  part_size :: nat

record multer_file =
  mf_originalname :: string
  mf_mimetype :: string
  mf_filename :: string
  mf_size :: nat

text \<open>
  What one \<open>POST /analyze\<close> request reads from outside: the suffix
  \<open>Date.now() + '-' + Math.round(Math.random() * 1E9)\<close> as text, \<open>path.extname\<close>, the
  ObjectId of the new document, and the clock at the document's construction and at its
  save.
\<close>

record analyze_env =
  uniqueSuffix :: string
  extname :: "string \<Rightarrow> string"
  newId :: oid
  docNow :: date
  saveNow :: date

definition allowedTypes :: "string list" where
  "allowedTypes = [''image/jpeg'', ''image/png'', ''image/webp'', ''application/pdf'']"

definition plain_error :: "string \<Rightarrow> js_error" where
  "plain_error msg =
     \<lparr>err_name = ''Error'', err_code = None, err_message = msg, err_status = None,
      err_errors = []\<rparr>"

definition invalid_file_type :: js_error where
  "invalid_file_type =
     plain_error ''Invalid file type. Only JPEG, PNG, WebP images and PDF files are allowed.''"

text \<open>\<open>fileFilter\<close>: \<open>None\<close> is \<open>cb(null, true)\<close>, \<open>Some e\<close> is \<open>cb(e)\<close>.\<close>

definition fileFilter :: "file_part \<Rightarrow> js_error option" where
  "fileFilter file =
     (if mimetype file \<in> set allowedTypes then None else Some invalid_file_type)"

definition fileSizeLimit :: nat where
  "fileSizeLimit = 10 * 1024 * 1024"

text \<open>The \<open>filename\<close> callback of the disk storage.\<close>

definition storage_filename :: "analyze_env \<Rightarrow> file_part \<Rightarrow> string" where
  "storage_filename ae file =
     ''scan-'' @ uniqueSuffix ae @ extname ae (originalname file)"

definition file_too_large :: js_error where
  "file_too_large =
     \<lparr>err_name = ''MulterError'', err_code = Some ''LIMIT_FILE_SIZE'',
      err_message = ''File too large'', err_status = None, err_errors = []\<rparr>"

text \<open>\<open>req.file\<close> for a part that is stored.\<close>

definition stored_file :: "analyze_env \<Rightarrow> file_part \<Rightarrow> multer_file" where
  "stored_file ae file =
     \<lparr>mf_originalname = originalname file,
      mf_mimetype = mimetype file,
      mf_filename = storage_filename ae file,
      mf_size = part_size file\<rparr>"

text \<open>
  \<open>upload.single('file')\<close>, multer's middleware with the storage, filter and limit above:
  without a part it calls \<open>next()\<close> with no \<open>req.file\<close>; a part the filter refuses is
  not stored and the filter's error goes to \<open>next\<close>; a part over the size limit is
  removed again and a \<open>LIMIT_FILE_SIZE\<close> error goes to \<open>next\<close>; otherwise the file is
  written under the generated name.
\<close>

definition upload_single ::
  "analyze_env \<Rightarrow> world \<Rightarrow> file_part option \<Rightarrow> (js_error + multer_file option) \<times> world" where
  "upload_single ae w part =
     (case part of
        None \<Rightarrow> (Inr None, w)
      | Some file \<Rightarrow>
          (case fileFilter file of
             Some e \<Rightarrow> (Inl e, w)
           | None \<Rightarrow>
               if fileSizeLimit < part_size file
               then (Inl file_too_large, w\<lparr>uploads := uploads w - {storage_filename ae file}\<rparr>)
               else (Inr (Some (stored_file ae file)),
                     w\<lparr>uploads := insert (storage_filename ae file) (uploads w)\<rparr>)))"

text \<open>
  The error-handling middleware of the server's entry file, which answers every error a
  middleware passes to \<open>next\<close>.
\<close>

definition errorMiddleware :: "js_error \<Rightarrow> response" where
  "errorMiddleware err =
     (if err_name err = ''ValidationError''
      then \<lparr>status = 400,
            body = JObj [(''success'', JBool False), (''message'', JStr ''Validation Error''),
                         (''errors'', JArr (map JStr (err_errors err)))]\<rparr>
      else if err_name err = ''JsonWebTokenError'' then failure 401 ''Invalid token''
      else if err_name err = ''TokenExpiredError'' then failure 401 ''Token expired''
      else failure (case err_status err of
                      None \<Rightarrow> 500
                    | Some st \<Rightarrow> if st = 0 then 500 else st)
             (if err_message err = [] then ''Internal Server Error'' else err_message err))"

subsection \<open>The placeholder analysis\<close>

text \<open>
  The values \<open>performFoodAnalysis\<close> reads from outside, in the order it reads them: the
  clock before and after the wait, and one \<open>Math.random()\<close> for each use. The comparator
  of \<open>sort\<close> is random, so the order \<open>sort\<close> leaves is the engine's: \<open>d_sort\<close> is that
  sort with its draws.
\<close>

record draws =
  t_start :: int
  t_end :: int
  d_score :: real
  d_fresh :: real
  d_nutri :: real
  d_sort :: "string list \<Rightarrow> string list"
  d_warn :: real
  d_warnCount :: real
  d_conf :: real

record analysis =
  a_qualityScore :: int
  a_freshness :: "string option"
  a_nutritionalValue :: "string option"
  a_recommendations :: "string list"
  a_warnings :: "string list"
  a_metadata :: analysis_metadata

definition all_recommendations :: "string list" where
  "all_recommendations =
     [''Store in refrigerator to maintain freshness'',
      ''Consume within 2-3 days for best quality'',
      ''Rich in vitamins and minerals'',
      ''Good source of dietary fiber'',
      ''Low in saturated fats'']"

definition all_warnings :: "string list" where
  "all_warnings =
     [''Check for signs of spoilage before consumption'',
      ''May contain allergens - check ingredients'']"

definition performFoodAnalysis :: "draws \<Rightarrow> analysis" where
  "performFoodAnalysis d =
     \<lparr>a_qualityScore = \<lfloor>d_score d * 40\<rfloor> + 60,
      a_freshness = js_index [''Excellent'', ''Good'', ''Fair'', ''Poor''] \<lfloor>d_fresh d * 4\<rfloor>,
      a_nutritionalValue = js_index [''High'', ''Medium'', ''Low''] \<lfloor>d_nutri d * 3\<rfloor>,
      a_recommendations = take 3 (d_sort d all_recommendations),
      a_warnings =
        (if 0.7 < d_warn d then take (nat (\<lfloor>d_warnCount d * 2\<rfloor> + 1)) all_warnings else []),
      a_metadata =
        \<lparr>processingTime = t_end d - t_start d,
         modelVersion = ''1.0.0'',
         confidence = 0.7 + d_conf d * 0.3\<rparr>\<rparr>"

subsection \<open>Constructing and saving the document\<close>

text \<open>\<open>trim\<close> of the schema's string paths, on the ASCII white space.\<close>

definition js_space :: "char \<Rightarrow> bool" where
  "js_space c = (c \<in> set [CHR '' '', CHR 0x09, CHR 0x0A, CHR 0x0B, CHR 0x0C, CHR 0x0D])"

definition trim :: "string \<Rightarrow> string" where
  "trim s = rev (dropWhile js_space (rev (dropWhile js_space s)))"

text \<open>
  The validators of \<open>scanSchema\<close>, in the order of its paths, on the values
  \<open>new Scan({...})\<close> receives; each failure is a path and a message. The messages the
  schema gives are literal; the messages of validators without one are Mongoose's own and
  are shortened here.
\<close>

definition validate_scan :: "multer_file \<Rightarrow> analysis \<Rightarrow> (string \<times> string) list" where
  "validate_scan file a =
     (if trim (mf_originalname file) = [] then [(''fileName'', ''File name is required'')]
      else []) @
     (if mf_mimetype file \<in> set allowedTypes then []
      else [(''fileType'', ''not a valid enum value'')]) @
     (if mf_filename file = [] then [(''filePath'', ''File path is required'')] else []) @
     (if fileSizeLimit < mf_size file then [(''fileSize'', ''File size cannot exceed 10MB'')]
      else []) @
     (if a_qualityScore a < 0
      then [(''qualityScore'', ''Quality score cannot be less than 0'')]
      else if 100 < a_qualityScore a
      then [(''qualityScore'', ''Quality score cannot be more than 100'')]
      else []) @
     (case a_freshness a of
        None \<Rightarrow> [(''freshness'', ''Freshness assessment is required'')]
      | Some x \<Rightarrow>
          if x = [] then [(''freshness'', ''Freshness assessment is required'')]
          else if x \<in> set [''Excellent'', ''Good'', ''Fair'', ''Poor''] then []
          else [(''freshness'', ''not a valid enum value'')]) @
     (case a_nutritionalValue a of
        None \<Rightarrow> [(''nutritionalValue'', ''Nutritional value assessment is required'')]
      | Some x \<Rightarrow>
          if x = [] then [(''nutritionalValue'', ''Nutritional value assessment is required'')]
          else if x \<in> set [''High'', ''Medium'', ''Low''] then []
          else [(''nutritionalValue'', ''not a valid enum value'')]) @
     (if processingTime (a_metadata a) < 0
      then [(''analysisMetadata.processingTime'', ''less than minimum allowed value'')]
      else []) @
     (if confidence (a_metadata a) < 0
      then [(''analysisMetadata.confidence'', ''less than minimum allowed value'')]
      else if 1 < confidence (a_metadata a)
      then [(''analysisMetadata.confidence'', ''more than maximum allowed value'')]
      else [])"

text \<open>\<open>Array.prototype.join(', ')\<close>.\<close>

fun join_comma :: "string list \<Rightarrow> string" where
  "join_comma [] = []"
| "join_comma [x] = x"
| "join_comma (x # y # ys) = x @ '', '' @ join_comma (y # ys)"

text \<open>
  The \<open>ValidationError\<close> of a failed validation: its message lists each path with its
  message, its \<open>errors\<close> hold the messages.
\<close>

definition validation_error :: "(string \<times> string) list \<Rightarrow> js_error" where
  "validation_error errs =
     \<lparr>err_name = ''ValidationError'', err_code = None,
      err_message =
        ''Scan validation failed: '' @ join_comma (map (\<lambda>pm. fst pm @ '': '' @ snd pm) errs),
      err_status = None, err_errors = map snd errs\<rparr>"

definition duplicate_key :: js_error where
  "duplicate_key =
     \<lparr>err_name = ''MongoServerError'', err_code = Some ''11000'',
      err_message = ''E11000 duplicate key error'', err_status = None, err_errors = []\<rparr>"

text \<open>The document \<open>new Scan({...})\<close> builds and \<open>save\<close> stores, once it is valid.\<close>

definition new_Scan :: "analyze_env \<Rightarrow> user \<Rightarrow> multer_file \<Rightarrow> analysis \<Rightarrow> scan" where
  "new_Scan ae u file a =
     \<lparr>scan_id = newId ae,
      userId = user_id u,
      fileName = trim (mf_originalname file),
      fileType = mf_mimetype file,
      filePath = mf_filename file,
      fileSize = mf_size file,
      analysisDate = docNow ae,
      qualityScore = a_qualityScore a,
      freshness = (case a_freshness a of Some x \<Rightarrow> x | None \<Rightarrow> []),
      nutritionalValue = (case a_nutritionalValue a of Some x \<Rightarrow> x | None \<Rightarrow> []),
      recommendations = map trim (a_recommendations a),
      warnings = map trim (a_warnings a),
      analysisMetadata = a_metadata a,
      createdAt = saveNow ae,
      updatedAt = saveNow ae\<rparr>"

text \<open>
  \<open>scan.save()\<close>: validation first, then the insert, which the store can reject (and
  does for an \<open>_id\<close> it already holds).
\<close>

definition Scan_save ::
  "faults \<Rightarrow> analyze_env \<Rightarrow> user \<Rightarrow> multer_file \<Rightarrow> analysis \<Rightarrow> scan list
     \<Rightarrow> js_error + scan list" where
  "Scan_save fl ae u file a db =
     (if validate_scan file a \<noteq> [] then Inl (validation_error (validate_scan file a))
      else (case saveRejects fl of
              Some e \<Rightarrow> Inl e
            | None \<Rightarrow>
                if newId ae \<in> scan_id ` set db then Inl duplicate_key
                else Inr (db @ [new_Scan ae u file a])))"

text \<open>The \<open>data\<close> object of the successful response, field by field.\<close>

definition analyze_data :: "scan \<Rightarrow> json" where
  "analyze_data s =
     JObj [(''id'', JStr (scan_id s)),
           (''fileName'', JStr (fileName s)),
           (''fileType'', JStr (fileType s)),
           (''fileUrl'', JStr (fileUrl (scan_doc s))),
           (''analysisDate'', JDate (analysisDate s)),
           (''qualityScore'', JNum (of_int (qualityScore s))),
           (''freshness'', JStr (freshness s)),
           (''nutritionalValue'', JStr (nutritionalValue s)),
           (''recommendations'', JArr (map JStr (recommendations s))),
           (''warnings'', JArr (map JStr (warnings s))),
           (''analysisMetadata'', metadata_json (analysisMetadata s))]"

definition analyze_success :: "scan \<Rightarrow> response" where
  "analyze_success s =
     \<lparr>status = 200,
      body = JObj [(''success'', JBool True), (''message'', JStr ''File analyzed successfully''),
                   (''data'', analyze_data s)]\<rparr>"

text \<open>
  The \<open>try\<close> block of \<open>POST /analyze\<close>: \<open>Inl e\<close> when \<open>e\<close> is thrown in it, \<open>Inr\<close> the
  response it sends and the world it leaves.
\<close>

definition analyze_try ::
  "faults \<Rightarrow> analyze_env \<Rightarrow> draws \<Rightarrow> world \<Rightarrow> multer_file option \<Rightarrow> user option
     \<Rightarrow> js_error + response \<times> world" where
  "analyze_try fl ae d w file usr =
     (case file of
        None \<Rightarrow> Inr (failure 400 ''No file uploaded'', w)
      | Some f \<Rightarrow>
          (case usr of
             None \<Rightarrow> Inr (notAuthenticated, w)
           | Some u \<Rightarrow>
               (case analysisRejects fl of
                  Some e \<Rightarrow> Inl e
                | None \<Rightarrow>
                    (case Scan_save fl ae u f (performFoodAnalysis d) (scans w) of
                       Inl e \<Rightarrow> Inl e
                     | Inr db \<Rightarrow>
                         Inr (analyze_success (new_Scan ae u f (performFoodAnalysis d)),
                              w\<lparr>scans := db\<rparr>)))))"

text \<open>
  The \<open>catch\<close> block: unlink the uploaded file when it exists, then answer 400 for a
  \<open>LIMIT_FILE_SIZE\<close> error and 500 for any other. When \<open>unlinkSync\<close> throws here the
  handler sends no response: the result is \<open>None\<close>.
\<close>

definition analyze_catch ::
  "faults \<Rightarrow> world \<Rightarrow> multer_file option \<Rightarrow> js_error \<Rightarrow> response option \<times> world" where
  "analyze_catch fl w file e =
     (let cleanup = (case file of None \<Rightarrow> False | Some f \<Rightarrow> existsSync w (mf_filename f))
      in if cleanup \<and> unlinkThrows fl then (None, w)
         else
           let w1 = (if cleanup then unlinkSync w (mf_filename (the file)) else w)
           in if err_code e = Some ''LIMIT_FILE_SIZE''
              then (Some (failure 400 ''File size too large. Maximum size is 10MB.''), w1)
              else (Some (failure 500
                            (if err_message e = [] then ''Internal server error during analysis''
                             else err_message e)), w1))"

definition analyze_handler ::
  "faults \<Rightarrow> analyze_env \<Rightarrow> draws \<Rightarrow> world \<Rightarrow> multer_file option \<Rightarrow> user option
     \<Rightarrow> response option \<times> world" where
  "analyze_handler fl ae d w file usr =
     (case analyze_try fl ae d w file usr of
        Inr (r, w') \<Rightarrow> (Some r, w')
      | Inl e \<Rightarrow> analyze_catch fl w file e)"

text \<open>
  The route \<open>POST /analyze\<close>: \<open>authenticateToken\<close>, then \<open>upload.single('file')\<close>, then
  the handler; an error of the upload goes to the error-handling middleware.
\<close>

definition analyze_route ::
  "auth_env \<Rightarrow> faults \<Rightarrow> analyze_env \<Rightarrow> draws \<Rightarrow> world \<Rightarrow> string option \<Rightarrow> file_part option
     \<Rightarrow> response option \<times> world" where
  "analyze_route env fl ae d w hdr part =
     (case authenticateToken env fl w hdr of
        Inl r \<Rightarrow> (Some r, w)
      | Inr u \<Rightarrow>
          (case upload_single ae w part of
             (Inl e, w1) \<Rightarrow> (Some (errorMiddleware e), w1)
           | (Inr file, w1) \<Rightarrow> analyze_handler fl ae d w1 file (Some u)))"

section \<open>Properties of a response and of the store\<close>

text \<open>A key occurs in a JSON value, at any depth.\<close>

fun has_key :: "string \<Rightarrow> json \<Rightarrow> bool" where
  "has_key k (JArr vs) = list_ex (has_key k) vs"
| "has_key k (JObj kvs) = list_ex (\<lambda>kv. fst kv = k \<or> has_key k (snd kv)) kvs"
| "has_key k v = False"


text \<open>The value under a key of a JSON object, and the value at the end of a path of keys.\<close>

definition json_get :: "string \<Rightarrow> json \<Rightarrow> json option" where
  "json_get k v = (case v of JObj kvs \<Rightarrow> map_of kvs k | _ \<Rightarrow> None)"

fun json_path :: "string list \<Rightarrow> json \<Rightarrow> json option" where
  "json_path [] v = Some v"
| "json_path (k # ks) v = (case json_get k v of None \<Rightarrow> None | Some x \<Rightarrow> json_path ks x)"

text \<open>The store keeps \<open>_id\<close> unique in a collection.\<close>

definition unique_ids :: "world \<Rightarrow> bool" where
  "unique_ids w = distinct (map scan_id (scans w))"

section \<open>All pages of a listing\<close>

text \<open>
  What a client reads in a response of \<open>GET /history\<close>: the array \<open>data.scans\<close>, and
  the page count \<open>data.pagination.pages\<close>.
\<close>

definition listed :: "response \<Rightarrow> json list" where
  "listed r = (case json_path [''data'', ''scans''] (body r) of Some (JArr xs) \<Rightarrow> xs | _ \<Rightarrow> [])"

definition reported_pages :: "response \<Rightarrow> int" where
  "reported_pages r =
     (case json_path [''data'', ''pagination'', ''pages''] (body r) of
        Some (JNum x) \<Rightarrow> \<lfloor>x\<rfloor>
      | _ \<Rightarrow> 0)"

text \<open>
  The pages 1 to \<open>pages\<close> of a listing, one after the other: one request for each page,
  with the same filters and page size, \<open>pages\<close> being the count the first response
  reports. \<open>ranks p\<close> is the store's order in the query of the request for page \<open>p\<close>.
\<close>

definition all_pages ::
  "auth_env \<Rightarrow> faults \<Rightarrow> (nat \<Rightarrow> oid \<Rightarrow> nat) \<Rightarrow> world \<Rightarrow> string option \<Rightarrow> history_query
     \<Rightarrow> json list" where
  "all_pages env fl ranks w hdr q =
     concat (map (\<lambda>p. listed (history_route env fl (ranks p) w hdr (q\<lparr>q_page := Some (int p)\<rparr>)))
               [1..<Suc (nat (reported_pages
                   (history_route env fl (ranks 1) w hdr (q\<lparr>q_page := Some 1\<rparr>))))])"

section \<open>Other blob names\<close>

text \<open>The world with the stored \<open>filePath\<close> of every record replaced, by \<open>g\<close>.\<close>

definition repath :: "(scan \<Rightarrow> string) \<Rightarrow> world \<Rightarrow> world" where
  "repath g w = w\<lparr>scans := map (\<lambda>s. s\<lparr>filePath := g s\<rparr>) (scans w)\<rparr>"


section \<open>The score band of the specification\<close>

text \<open>
  The specification's reading of the filters, in its words: the owner's records with the
  score in the inclusive range from \<open>lo\<close> to \<open>hi\<close>, and with the freshness \<open>g\<close> when one is
  given.
\<close>

definition spec_band :: "oid \<Rightarrow> int \<Rightarrow> int \<Rightarrow> string option \<Rightarrow> scan \<Rightarrow> bool" where
  "spec_band uid lo hi g s =
     (userId s = uid \<and> lo \<le> qualityScore s \<and> qualityScore s \<le> hi \<and>
      (case g of None \<Rightarrow> True | Some x \<Rightarrow> freshness s = x))"

section \<open>Example data\<close>

definition example_scan :: "oid \<Rightarrow> oid \<Rightarrow> string \<Rightarrow> int \<Rightarrow> string \<Rightarrow> date \<Rightarrow> scan" where
  "example_scan i owner blob score fresh t =
     \<lparr>scan_id = i, userId = owner, fileName = ''apple.jpg'', fileType = ''image/jpeg'',
      filePath = blob, fileSize = 2048, analysisDate = t, qualityScore = score,
      freshness = fresh, nutritionalValue = ''High'', recommendations = [], warnings = [],
      analysisMetadata = \<lparr>processingTime = 1500, modelVersion = ''1.0.0'', confidence = 0.9\<rparr>,
      createdAt = t, updatedAt = t\<rparr>"

definition example_query :: "int option \<Rightarrow> int option \<Rightarrow> history_query" where
  "example_query p l =
     \<lparr>q_page = p, q_limit = l, q_freshness = None, q_minScore = None, q_maxScore = None\<rparr>"

text \<open>Five documents: four of account \<open>A\<close>, one of account \<open>B\<close>.\<close>

definition example_db :: "scan list" where
  "example_db =
     [example_scan ''1'' ''A'' ''scan-1.jpg'' 80 ''Good'' 1000,
      example_scan ''2'' ''B'' ''scan-2.jpg'' 90 ''Good'' 2000,
      example_scan ''3'' ''A'' ''scan-3.jpg'' 70 ''Fair'' 3000,
      example_scan ''4'' ''A'' ''scan-4.jpg'' 65 ''Poor'' 2000,
      example_scan ''5'' ''A'' ''scan-5.jpg'' 95 ''Good'' 4000]"

text \<open>Two documents of account \<open>A\<close> created at the same instant.\<close>

definition tie_1 :: scan where
  "tie_1 = example_scan ''1'' ''A'' ''scan-1.jpg'' 80 ''Good'' 1000"

definition tie_2 :: scan where
  "tie_2 = example_scan ''2'' ''A'' ''scan-2.jpg'' 90 ''Good'' 1000"

definition band_query :: "string option \<Rightarrow> history_query" where
  "band_query g =
     \<lparr>q_page = None, q_limit = None, q_freshness = g, q_minScore = Some 70,
      q_maxScore = Some 89\<rparr>"

text \<open>
  Two accounts, a token for each, a server with a secret and a token check that knows the
  two tokens, a request in which nothing throws, and a world with the five documents and
  their files.
\<close>

definition example_user :: "oid \<Rightarrow> user" where
  "example_user i =
     \<lparr>user_id = i, user_name = ''Alice'', user_email = ''alice@example.com'',
      user_password = ''hash'', user_createdAt = 500, user_updatedAt = 500\<rparr>"

definition example_env :: auth_env where
  "example_env =
     \<lparr>jwtSecret = Some ''secret'',
      jwt_verify = (\<lambda>token secret.
         if secret = ''secret'' \<and> token = ''tokA'' then Decoded ''A''
         else if secret = ''secret'' \<and> token = ''tokB'' then Decoded ''B''
         else JwtThrows ''JsonWebTokenError'')\<rparr>"

definition no_faults :: faults where
  "no_faults =
     \<lparr>scanFindThrows = False, scanCountThrows = False, scanDeleteThrows = False,
      userFindThrows = False, userDeleteThrows = False, unlinkThrows = False,
      analysisRejects = None, saveRejects = None\<rparr>"

definition example_world :: world where
  "example_world =
     \<lparr>scans = example_db,
      users = [example_user ''A'', example_user ''B''],
      uploads = {''scan-1.jpg'', ''scan-2.jpg'', ''scan-3.jpg'', ''scan-4.jpg'', ''scan-5.jpg''}\<rparr>"

text \<open>Requests in which a single call throws: \<open>fs.unlinkSync\<close>, or the deletion of the document.\<close>

definition unlink_fails :: faults where
  "unlink_fails = no_faults\<lparr>unlinkThrows := True\<rparr>"

definition db_delete_fails :: faults where
  "db_delete_fails = no_faults\<lparr>scanDeleteThrows := True\<rparr>"

text \<open>A password check that accepts the one password \<open>secret123456\<close>.\<close>

definition example_compare :: "user \<Rightarrow> string \<Rightarrow> bool" where
  "example_compare u pw = (pw = ''secret123456'')"

definition example_scan_B :: scan where
  "example_scan_B = example_scan ''2'' ''B'' ''scan-2.jpg'' 90 ''Good'' 2000"

text \<open>
  One \<open>POST /analyze\<close> request: its outside values, its draws, a JPEG part, a text part
  and a JPEG part whose name is blank.
\<close>

definition example_ae :: analyze_env where
  "example_ae =
     \<lparr>uniqueSuffix = ''1700000000000-42'',
      extname = (\<lambda>n. dropWhile (\<lambda>c. c \<noteq> CHR ''.'') n),
      newId = ''6'', docNow = 5000, saveNow = 5001\<rparr>"

definition example_draws :: draws where
  "example_draws =
     \<lparr>t_start = 3000, t_end = 4500, d_score = 1 / 2, d_fresh = 3 / 10, d_nutri = 1 / 10,
      d_sort = rev, d_warn = 8 / 10, d_warnCount = 6 / 10, d_conf = 1 / 2\<rparr>"

definition jpeg_part :: file_part where
  "jpeg_part = \<lparr>originalname = ''apple.jpg'', mimetype = ''image/jpeg'', part_size = 2097152\<rparr>"

definition text_part :: file_part where
  "text_part = \<lparr>originalname = ''notes.txt'', mimetype = ''text/plain'', part_size = 120\<rparr>"

definition blank_part :: file_part where
  "blank_part = \<lparr>originalname = ''   '', mimetype = ''image/jpeg'', part_size = 2097152\<rparr>"

definition save_fails :: faults where
  "save_fails = no_faults\<lparr>saveRejects := Some (plain_error ''connection lost'')\<rparr>"

text \<open>What the placeholder analysis returns for \<open>example_draws\<close>.\<close>

definition example_analysis :: analysis where
  "example_analysis =
     \<lparr>a_qualityScore = 80, a_freshness = Some ''Good'', a_nutritionalValue = Some ''High'',
      a_recommendations =
        [''Low in saturated fats'', ''Good source of dietary fiber'',
         ''Rich in vitamins and minerals''],
      a_warnings =
        [''Check for signs of spoilage before consumption'',
         ''May contain allergens - check ingredients''],
      a_metadata = \<lparr>processingTime = 1500, modelVersion = ''1.0.0'', confidence = 17 / 20\<rparr>\<rparr>"

text \<open>The record the example request stores, and the world after it.\<close>

definition example_new_scan :: scan where
  "example_new_scan =
     new_Scan example_ae (example_user ''A'') (stored_file example_ae jpeg_part) example_analysis"

definition example_world_after :: world where
  "example_world_after =
     example_world\<lparr>uploads := insert ''scan-1700000000000-42.jpg'' (uploads example_world),
                   scans := example_db @ [example_new_scan]\<rparr>"

text \<open>
  A world with the two documents of equal creation time, and a store that comes upon
  document 2 first in the query for page 2 and keeps the storage order otherwise.
\<close>

definition tie_world :: world where
  "tie_world =
     \<lparr>scans = [tie_1, tie_2],
      users = [example_user ''A'', example_user ''B''],
      uploads = {''scan-1.jpg'', ''scan-2.jpg''}\<rparr>"

definition flip_ranks :: "nat \<Rightarrow> oid \<Rightarrow> nat" where
  "flip_ranks p i = (if p = 2 \<and> i = ''2'' then 0 else 1)"

text \<open>A store whose order changes with every query.\<close>

definition shifting_ranks :: "nat \<Rightarrow> oid \<Rightarrow> nat" where
  "shifting_ranks p i = (if i = ''1'' then p else 3)"

text \<open>A store that keeps the storage order in every query.\<close>

definition storage_rank :: "oid \<Rightarrow> nat" where
  "storage_rank i = 0"

section \<open>Lemmas\<close>

subsection \<open>Sorting\<close>

lemma sort_key_unique:
  assumes "distinct (map k xs)" and "mset ys = mset xs" and "sorted (map k ys)"
  shows "sort_key k xs = ys"
proof -
  let ?zs = "sort_key k xs"
  have m: "mset (map k ys) = mset (map k xs)"
    using assms(2) by simp
  have dy: "distinct (map k ys)"
    using assms(1) m by (metis mset_eq_imp_distinct_iff)
  have dz: "distinct (map k ?zs)"
    using assms(1) by (metis mset_eq_imp_distinct_iff mset_map mset_sort)
  have "set (map k ?zs) = set (map k ys)"
    using m by (metis mset_eq_setD mset_map mset_sort)
  then have "map k ?zs = map k ys"
    using dz dy assms(3) by (intro sorted_distinct_set_unique) simp_all
  moreover have "inj_on k (set ?zs \<union> set ys)"
  proof -
    have "set ys = set xs"
      using assms(2) by (rule mset_eq_setD)
    then show ?thesis
      using assms(1) by (simp add: distinct_map)
  qed
  ultimately show ?thesis
    by (simp add: inj_on_map_eq_map)
qed

lemma mset_find_sorted: "mset (Scan_find_sorted rank f db) = mset (filter (matches f) db)"
  by (simp add: Scan_find_sorted_def)

lemma set_find_sorted: "set (Scan_find_sorted rank f db) = {s \<in> set db. matches f s}"
  by (simp add: Scan_find_sorted_def)

lemma length_find_sorted: "length (Scan_find_sorted rank f db) = countDocuments f db"
  by (simp add: Scan_find_sorted_def countDocuments_def)

lemma newest_first_find_sorted:
  "sorted_wrt (\<lambda>a b. createdAt b \<le> createdAt a) (Scan_find_sorted rank f db)"
proof -
  have "sorted (map (\<lambda>s. - createdAt s) (Scan_find_sorted rank f db))"
    unfolding Scan_find_sorted_def by (rule sorted_sort_key)
  then show ?thesis
    by (simp add: sorted_map)
qed

lemma distinct_ids_find_sorted:
  assumes "distinct (map scan_id db)"
  shows "distinct (map scan_id (Scan_find_sorted rank f db))"
proof -
  have "distinct (map scan_id (filter (matches f) db))"
    using assms by (rule distinct_map_filter)
  moreover have "mset (map scan_id (Scan_find_sorted rank f db)) =
      mset (map scan_id (filter (matches f) db))"
    by (simp add: mset_find_sorted)
  ultimately show ?thesis
    by (metis mset_eq_imp_distinct_iff)
qed

text \<open>Without equal creation times the store's order plays no part.\<close>

lemma find_sorted_no_ties:
  assumes "distinct (map createdAt (filter (matches f) db))"
  shows "Scan_find_sorted rank f db = sort_key (\<lambda>s. - createdAt s) (filter (matches f) db)"
proof -
  let ?M = "filter (matches f) db"
  let ?R = "sort_key (\<lambda>s. rank (scan_id s)) ?M"
  have "inj_on createdAt (set ?M)" "distinct ?M"
    using assms by (simp_all add: distinct_map)
  then have "inj_on (\<lambda>s. - createdAt s) (set ?M)"
    by (simp add: inj_on_def)
  with \<open>distinct ?M\<close> have "distinct (map (\<lambda>s. - createdAt s) ?R)"
    by (simp add: distinct_map)
  moreover have "mset (sort_key (\<lambda>s. - createdAt s) ?M) = mset ?R"
    by simp
  moreover have "sorted (map (\<lambda>s. - createdAt s) (sort_key (\<lambda>s. - createdAt s) ?M))"
    by (rule sorted_sort_key)
  ultimately show ?thesis
    unfolding Scan_find_sorted_def by (rule sort_key_unique)
qed

text \<open>
  Every newest-first order of the matching documents is the answer of the store for some
  \<open>rank\<close>, ids being unique: the model leaves the order among equal creation times open.
\<close>

lemma every_newest_first_order:
  assumes "distinct (map scan_id db)"
    and "mset xs = mset (filter (matches f) db)"
    and "sorted_wrt (\<lambda>a b. createdAt b \<le> createdAt a) xs"
  shows "Scan_find_sorted (\<lambda>i. length (takeWhile (\<lambda>s. scan_id s \<noteq> i) xs)) f db = xs"
proof -
  let ?M = "filter (matches f) db"
  let ?r = "\<lambda>s. length (takeWhile (\<lambda>x. scan_id x \<noteq> scan_id s) xs)"
  have dM: "distinct (map scan_id ?M)"
    using assms(1) by (rule distinct_map_filter)
  have dx: "distinct (map scan_id xs)"
    using dM assms(2) by (metis mset_eq_imp_distinct_iff mset_map)
  have idx: "?r (xs ! n) = n" if "n < length xs" for n
  proof -
    have "\<forall>j<n. scan_id (xs ! j) \<noteq> scan_id (xs ! n)"
      using dx that by (simp add: distinct_conv_nth)
    then have "takeWhile (\<lambda>x. scan_id x \<noteq> scan_id (xs ! n)) xs = take n xs"
      using that by (intro takeWhile_eq_take_P_nth) simp_all
    then show ?thesis
      using that by simp
  qed
  have "map ?r xs = [0..<length xs]"
    by (rule nth_equalityI) (simp_all add: idx)
  then have sx: "sorted (map ?r xs)" and "distinct (map ?r xs)"
    by simp_all
  then have "distinct (map ?r ?M)"
    using assms(2) by (metis mset_eq_imp_distinct_iff mset_map)
  then have "sort_key ?r ?M = xs"
    using assms(2) sx by (rule sort_key_unique)
  moreover have "sort_key (\<lambda>s. - createdAt s) xs = xs"
    using assms(3) by (intro sort_key_id_if_sorted) (simp add: sorted_map)
  ultimately show ?thesis
    by (simp add: Scan_find_sorted_def)
qed

subsection \<open>Paging\<close>

lemma concat_take_drop:
  "concat (map (\<lambda>k. take n (drop (k * n) xs)) [0..<m]) = take (m * n) xs"
proof (induction m)
  case 0
  show ?case by simp
next
  case (Suc m)
  have "take (Suc m * n) xs = take (m * n + n) xs"
    by (simp add: add.commute)
  also have "\<dots> = take (m * n) xs @ take n (drop (m * n) xs)"
    by (rule take_add)
  finally show ?case
    using Suc.IH by simp
qed

lemma build_filters_page [simp]: "build_filters uid (q\<lparr>q_page := p\<rparr>) = build_filters uid q"
  by (simp add: build_filters_def)

lemma limit_of_page [simp]: "limit_of (q\<lparr>q_page := p\<rparr>) = limit_of q"
  by (simp add: limit_of_def)

lemma page_of_pos: "0 < p \<Longrightarrow> page_of (q\<lparr>q_page := Some p\<rparr>) = p"
  by (simp add: page_of_def or_default_def)

lemma skip_of_Suc: "skip_of (q\<lparr>q_page := Some (int (Suc k))\<rparr>) = int k * limit_of q"
proof -
  have "page_of (q\<lparr>q_page := Some (int (Suc k))\<rparr>) = int (Suc k)"
    by (rule page_of_pos) simp
  then show ?thesis
    by (simp add: skip_of_def)
qed

lemma history_page_Suc:
  assumes "0 < limit_of q"
  shows "history_page rank uid (q\<lparr>q_page := Some (int (Suc k))\<rparr>) db =
         take (nat (limit_of q))
           (drop (k * nat (limit_of q)) (Scan_find_sorted rank (build_filters uid q) db))"
proof -
  have "nat (int k * limit_of q) = k * nat (limit_of q)"
    using assms by (simp add: nat_mult_distrib)
  then show ?thesis
    using assms unfolding history_page_def skip_of_Suc by simp
qed

lemma pages_cover:
  assumes "0 < l"
  shows "t \<le> nat (pages_of t l) * nat l"
proof -
  have "real t / real_of_int l \<le> real_of_int (pages_of t l)"
    by (simp add: pages_of_def)
  then have "real t \<le> real_of_int (pages_of t l) * real_of_int l"
    using assms by (simp add: pos_divide_le_eq)
  then have "int t \<le> pages_of t l * l"
    by (metis of_int_le_iff of_int_mult of_int_of_nat_eq)
  moreover have "0 \<le> real t / real_of_int l"
    using assms by simp
  then have "0 \<le> pages_of t l"
    unfolding pages_of_def by (simp add: zero_le_ceiling)
  ultimately show ?thesis
    using assms by (metis nat_int nat_mono nat_mult_distrib)
qed

text \<open>The successful response of the route is made of the page and of the count.\<close>

lemma history_route_response:
  assumes "authenticateToken env fl w hdr = Inr u"
    and "\<not> scanFindThrows fl" and "\<not> scanCountThrows fl" and "0 \<le> skip_of q"
  shows "history_route env fl rank w hdr q =
         success_data
           (JObj [(''scans'',
                     JArr (map public_doc (history_page rank (user_id u) q (scans w)))),
                  (''pagination'',
                     pagination_json (page_of q) (limit_of q)
                       (countDocuments (build_filters (user_id u) q) (scans w)))])"
  using assms by (simp add: history_route_def history_handler_def)

lemma history_route_reads:
  assumes "authenticateToken env fl w hdr = Inr u"
    and "\<not> scanFindThrows fl" and "\<not> scanCountThrows fl" and "0 \<le> skip_of q"
  shows "listed (history_route env fl rank w hdr q) =
           map public_doc (history_page rank (user_id u) q (scans w))"
    and "reported_pages (history_route env fl rank w hdr q) =
           pages_of (countDocuments (build_filters (user_id u) q) (scans w)) (limit_of q)"
    and "json_path [''data'', ''pagination'', ''total''] (body (history_route env fl rank w hdr q)) =
           Some (JNum (of_nat (countDocuments (build_filters (user_id u) q) (scans w))))"
    and "status (history_route env fl rank w hdr q) = 200"
  unfolding history_route_response [OF assms]
  by (simp_all add: listed_def reported_pages_def success_data_def json_get_def
      pagination_json_def)

text \<open>
  All pages, when every page query gets the matching documents in the same order \<open>S\<close>.
\<close>

lemma all_pages_same_order:
  assumes "authenticateToken env fl w hdr = Inr u"
    and "\<not> scanFindThrows fl" and "\<not> scanCountThrows fl" and "0 < limit_of q"
    and "\<And>p. Scan_find_sorted (ranks p) (build_filters (user_id u) q) (scans w) = S"
  shows "all_pages env fl ranks w hdr q = map public_doc S"
proof -
  let ?L = "nat (limit_of q)"
  let ?m = "nat (pages_of (countDocuments (build_filters (user_id u) q) (scans w)) (limit_of q))"
  have sk: "0 \<le> skip_of (q\<lparr>q_page := Some (int (Suc k))\<rparr>)" for k
    using assms(4) unfolding skip_of_Suc by simp
  have pg: "listed (history_route env fl (ranks (Suc k)) w hdr (q\<lparr>q_page := Some (int (Suc k))\<rparr>)) =
      map public_doc (take ?L (drop (k * ?L) S))" for k
    by (simp only: history_route_reads(1) [OF assms(1-3) sk] history_page_Suc [OF assms(4)]
        assms(5))
  have "reported_pages (history_route env fl (ranks 1) w hdr (q\<lparr>q_page := Some (int (Suc 0))\<rparr>)) =
      pages_of (countDocuments (build_filters (user_id u) q) (scans w)) (limit_of q)"
    by (simp only: history_route_reads(2) [OF assms(1-3) sk] build_filters_page limit_of_page)
  then have rp: "reported_pages (history_route env fl (ranks 1) w hdr (q\<lparr>q_page := Some 1\<rparr>)) =
      pages_of (countDocuments (build_filters (user_id u) q) (scans w)) (limit_of q)"
    by simp
  have up: "[1..<Suc ?m] = map Suc [0..<?m]"
    by (simp add: map_Suc_upt)
  have "all_pages env fl ranks w hdr q =
      concat (map (\<lambda>k. map public_doc (take ?L (drop (k * ?L) S))) [0..<?m])"
    unfolding all_pages_def rp up by (simp only: map_map o_def pg)
  also have "\<dots> = map public_doc (concat (map (\<lambda>k. take ?L (drop (k * ?L) S)) [0..<?m]))"
    by (simp add: map_concat o_def)
  also have "\<dots> = map public_doc (take (?m * ?L) S)"
    by (simp only: concat_take_drop)
  also have "\<dots> = map public_doc S"
  proof -
    have "length S = countDocuments (build_filters (user_id u) q) (scans w)"
      using assms(5) [of 0] length_find_sorted by metis
    then show ?thesis
      using pages_cover [OF assms(4), of "length S"] by simp
  qed
  finally show ?thesis .
qed

subsection \<open>The example data\<close>

lemma example_scan_sel [simp]:
  "scan_id (example_scan i owner blob score fresh t) = i"
  "userId (example_scan i owner blob score fresh t) = owner"
  "filePath (example_scan i owner blob score fresh t) = blob"
  "qualityScore (example_scan i owner blob score fresh t) = score"
  "freshness (example_scan i owner blob score fresh t) = fresh"
  "createdAt (example_scan i owner blob score fresh t) = t"
  by (simp_all add: example_scan_def)

lemma example_query_sel [simp]:
  "q_page (example_query p l) = p"
  "q_limit (example_query p l) = l"
  "q_freshness (example_query p l) = None"
  "q_minScore (example_query p l) = None"
  "q_maxScore (example_query p l) = None"
  by (simp_all add: example_query_def)

lemma matches_example_query [simp]:
  "matches (build_filters uid (example_query p l)) s = (userId s = uid)"
  by (simp add: matches_def build_filters_def)

lemma no_faults_sel [simp]:
  "\<not> scanFindThrows no_faults" "\<not> scanCountThrows no_faults" "\<not> scanDeleteThrows no_faults"
  "\<not> userFindThrows no_faults" "\<not> userDeleteThrows no_faults" "\<not> unlinkThrows no_faults"
  "analysisRejects no_faults = None" "saveRejects no_faults = None"
  by (simp_all add: no_faults_def)

lemma unlink_fails_sel [simp]:
  "\<not> scanFindThrows unlink_fails" "\<not> scanDeleteThrows unlink_fails"
  "\<not> userFindThrows unlink_fails" "unlinkThrows unlink_fails"
  by (simp_all add: unlink_fails_def no_faults_def)

lemma db_delete_fails_sel [simp]:
  "\<not> scanFindThrows db_delete_fails" "scanDeleteThrows db_delete_fails"
  "\<not> userFindThrows db_delete_fails" "\<not> unlinkThrows db_delete_fails"
  by (simp_all add: db_delete_fails_def no_faults_def)

lemma example_user_sel [simp]: "user_id (example_user i) = i"
  by (simp add: example_user_def)

lemma example_world_sel [simp]:
  "scans example_world = example_db"
  "users example_world = [example_user ''A'', example_user ''B'']"
  "uploads example_world =
     {''scan-1.jpg'', ''scan-2.jpg'', ''scan-3.jpg'', ''scan-4.jpg'', ''scan-5.jpg''}"
  by (simp_all add: example_world_def)

lemma split_space_bearer_A: "split_space ''Bearer tokA'' = [''Bearer'', ''tokA'']"
  by simp

lemma split_space_bearer_B: "split_space ''Bearer tokB'' = [''Bearer'', ''tokB'']"
  by simp

lemma auth_example_A:
  assumes "\<not> userFindThrows fl" and "users w = [example_user ''A'', example_user ''B'']"
  shows "authenticateToken example_env fl w (Some ''Bearer tokA'') = Inr (example_user ''A'')"
  using assms
  by (simp add: authenticateToken_def split_space_bearer_A js_index_def example_env_def
      User_findById_def)

lemma auth_example_B:
  assumes "\<not> userFindThrows fl" and "users w = [example_user ''A'', example_user ''B'']"
  shows "authenticateToken example_env fl w (Some ''Bearer tokB'') = Inr (example_user ''B'')"
  using assms
  by (simp add: authenticateToken_def split_space_bearer_B js_index_def example_env_def
      User_findById_def)

lemmas auth_A = auth_example_A [OF no_faults_sel(4) example_world_sel(2)]

lemma auth_same_users:
  assumes "authenticateToken env fl w hdr = Inr u"
    and "users w' = users w" and "\<not> userFindThrows fl'"
  shows "authenticateToken env fl' w' hdr = Inr u"
  using assms
  by (auto simp: authenticateToken_def Let_def split: option.splits jwt_result.splits if_splits)

lemma auth_status:
  "authenticateToken env fl w hdr = Inl r \<Longrightarrow> status r = 401 \<or> status r = 500"
  by (auto simp: authenticateToken_def Let_def failure_def auth_failed_def
      split: option.splits jwt_result.splits if_splits)

subsection \<open>Lookup and deletion\<close>

lemma find_Some_in: "find P xs = Some x \<Longrightarrow> P x \<and> x \<in> set xs"
  by (induction xs) (auto split: if_splits)

lemma findOne_Some:
  "Scan_findOne i uid db = Some s \<Longrightarrow> s \<in> set db \<and> scan_id s = i \<and> userId s = uid"
  unfolding Scan_findOne_def by (drule find_Some_in) simp

lemma findOne_None:
  "(Scan_findOne i uid db = None) = (\<forall>s\<in>set db. scan_id s = i \<longrightarrow> userId s \<noteq> uid)"
  by (auto simp: Scan_findOne_def find_None_iff)

lemma delete_first_distinct:
  "distinct (map f xs) \<Longrightarrow> delete_first (\<lambda>x. f x = k) xs = filter (\<lambda>x. f x \<noteq> k) xs"
proof (induction xs)
  case Nil
  show ?case by simp
next
  case (Cons x xs)
  show ?case
  proof (cases "f x = k")
    case True
    from Cons.prems have "f x \<notin> f ` set xs"
      by simp
    with True have "\<forall>y\<in>set xs. f y \<noteq> k"
      by (metis imageI)
    then have "filter (\<lambda>y. f y \<noteq> k) xs = xs"
      by (simp add: filter_id_conv)
    with True show ?thesis by simp
  next
    case False
    with Cons show ?thesis by simp
  qed
qed

lemma set_delete_first: "set (delete_first P xs) \<subseteq> set xs"
  by (induction xs) auto

lemma distinct_delete_first: "distinct (map f xs) \<Longrightarrow> distinct (map f (delete_first P xs))"
proof (induction xs)
  case Nil
  show ?case by simp
next
  case (Cons x xs)
  have "f ` set (delete_first P xs) \<subseteq> f ` set xs"
    using set_delete_first [of P xs] by blast
  with Cons show ?case by auto
qed

lemma getById_not_owned:
  assumes "\<not> scanFindThrows fl"
    and "\<forall>s\<in>set (scans w). scan_id s = i \<longrightarrow> userId s \<noteq> user_id u"
  shows "getById_handler fl w (Some u) i = scanNotFound"
  using assms by (simp add: getById_handler_def findOne_None [symmetric])

lemma delete_not_owned:
  assumes "\<not> scanFindThrows fl"
    and "\<forall>s\<in>set (scans w). scan_id s = i \<longrightarrow> userId s \<noteq> user_id u"
  shows "delete_handler fl w (Some u) i = (scanNotFound, w)"
  using assms by (simp add: delete_handler_def findOne_None [symmetric])

lemma status_simps [simp]:
  "status (failure st msg) = st"
  "status (success_message msg) = 200"
  "status (success_data d) = 200"
  "status notAuthenticated = 401"
  "status scanNotFound = 404"
  "status delete_failed = 500"
  "status account_failed = 500"
  "status auth_failed = 500"
  by (simp_all add: failure_def success_message_def success_data_def notAuthenticated_def
      scanNotFound_def delete_failed_def account_failed_def auth_failed_def)

lemma getById_ok:
  assumes "status (getById_handler fl w (Some u) i) = 200"
  shows "\<exists>s\<in>set (scans w). scan_id s = i \<and> userId s = user_id u \<and>
           getById_handler fl w (Some u) i =
             success_data (toJSON (select_minus ''filePath'' (scan_doc s)))"
proof (cases "Scan_findOne i (user_id u) (scans w)")
  case None
  with assms show ?thesis
    by (simp add: getById_handler_def split: if_splits)
next
  case (Some s)
  with assms have "getById_handler fl w (Some u) i =
      success_data (toJSON (select_minus ''filePath'' (scan_doc s)))"
    by (simp add: getById_handler_def split: if_splits)
  with findOne_Some [OF Some] show ?thesis by blast
qed

lemma delete_keeps_others:
  assumes "unique_ids w"
  shows "filter (\<lambda>s. userId s \<noteq> user_id u) (scans (snd (delete_handler fl w (Some u) i))) =
         filter (\<lambda>s. userId s \<noteq> user_id u) (scans w)"
proof (cases "Scan_findOne i (user_id u) (scans w)")
  case None
  then show ?thesis
    by (simp add: delete_handler_def)
next
  case (Some s)
  note s = findOne_Some [OF Some]
  have d: "distinct (map scan_id (scans w))"
    using assms by (simp add: unique_ids_def)
  have other: "scan_id x \<noteq> scan_id s" if "x \<in> set (scans w)" "userId x \<noteq> user_id u" for x
  proof
    assume "scan_id x = scan_id s"
    with d that(1) s have "x = s"
      by (meson distinct_map inj_onD)
    with that(2) s show False by simp
  qed
  have "filter (\<lambda>x. userId x \<noteq> user_id u)
          (Scan_findByIdAndDelete (scan_id s) (scans w)) =
        filter (\<lambda>x. userId x \<noteq> user_id u) (scans w)"
    unfolding Scan_findByIdAndDelete_def delete_first_distinct [OF d]
    using other by (auto simp: filter_filter intro!: filter_cong)
  then show ?thesis
    using Some by (simp add: delete_handler_def unlinkSync_def Let_def)
qed

lemma delete_ok:
  assumes "delete_handler fl w (Some u) i = (r, w')" and "status r = 200"
  shows "\<exists>s. Scan_findOne i (user_id u) (scans w) = Some s \<and>
             uploads w' = uploads w - {filePath s} \<and>
             scans w' = Scan_findByIdAndDelete i (scans w) \<and>
             users w' = users w \<and>
             r = success_message ''Scan deleted successfully''"
proof (cases "Scan_findOne i (user_id u) (scans w)")
  case None
  with assms show ?thesis
    by (auto simp: delete_handler_def split: if_splits)
next
  case (Some s)
  have "scan_id s = i"
    using findOne_Some [OF Some] by simp
  with assms Some show ?thesis
    by (auto simp: delete_handler_def Let_def existsSync_def unlinkSync_def split: if_splits)
qed

lemma findOne_after_delete:
  assumes "distinct (map scan_id db)"
  shows "Scan_findOne i uid (Scan_findByIdAndDelete i db) = None"
  unfolding Scan_findByIdAndDelete_def delete_first_distinct [OF assms]
  by (simp add: findOne_None)

lemma delete_route_ok:
  assumes "delete_scan_route env fl w hdr i = (r, w')" and "status r = 200"
  shows "\<exists>u. authenticateToken env fl w hdr = Inr u \<and>
             delete_handler fl w (Some u) i = (r, w')"
proof (cases "authenticateToken env fl w hdr")
  case (Inl x)
  with assms have "r = x"
    by (simp add: delete_scan_route_def)
  with auth_status [OF Inl] assms(2) show ?thesis by simp
next
  case (Inr u)
  with assms show ?thesis
    by (simp add: delete_scan_route_def)
qed

lemma findOne_example_1:
  "Scan_findOne ''1'' ''A'' example_db = Some (example_scan ''1'' ''A'' ''scan-1.jpg'' 80 ''Good'' 1000)"
  by (simp add: Scan_findOne_def example_db_def)

subsection \<open>Account deletion\<close>

lemma account_delete_keeps_uploads:
  "uploads (snd (account_delete_handler cmp fl w usr pw)) = uploads w"
  by (simp add: account_delete_handler_def Let_def split: option.splits)

lemma account_delete_removes_records:
  assumes "account_delete_handler cmp fl w (Some u) pw = (r, w')" and "status r = 200"
  shows "scans w' = filter (\<lambda>s. userId s \<noteq> user_id u) (scans w)"
  using assms
  by (auto simp: account_delete_handler_def Let_def split: option.splits if_splits)

subsection \<open>Upload and analysis\<close>

lemma stored_file_sel [simp]:
  "mf_originalname (stored_file ae file) = originalname file"
  "mf_mimetype (stored_file ae file) = mimetype file"
  "mf_filename (stored_file ae file) = storage_filename ae file"
  "mf_size (stored_file ae file) = part_size file"
  by (simp_all add: stored_file_def)

lemma status_upload_errors [simp]:
  "status (errorMiddleware invalid_file_type) = 500"
  "status (errorMiddleware file_too_large) = 500"
  by (simp_all add: errorMiddleware_def invalid_file_type_def plain_error_def file_too_large_def)

lemma errorMiddleware_invalid_file_type:
  "errorMiddleware invalid_file_type =
     failure 500 ''Invalid file type. Only JPEG, PNG, WebP images and PDF files are allowed.''"
  by (simp add: errorMiddleware_def invalid_file_type_def plain_error_def)

lemma status_analyze_success [simp]: "status (analyze_success s) = 200"
  by (simp add: analyze_success_def)

lemma analyze_catch_status:
  "analyze_catch fl w file e = (Some r, w') \<Longrightarrow> status r = 400 \<or> status r = 500"
  by (auto simp: analyze_catch_def Let_def split: if_splits)

lemma analyze_try_ok:
  assumes "analyze_try fl ae d w file (Some u) = Inr (r, w')" and "status r = 200"
  shows "\<exists>f. file = Some f \<and>
             r = analyze_success (new_Scan ae u f (performFoodAnalysis d)) \<and>
             w' = w\<lparr>scans := scans w @ [new_Scan ae u f (performFoodAnalysis d)]\<rparr>"
  using assms
  by (auto simp: analyze_try_def Scan_save_def split: option.splits sum.splits if_splits)

lemma analyze_handler_ok:
  assumes "analyze_handler fl ae d w file (Some u) = (Some r, w')" and "status r = 200"
  shows "\<exists>f. file = Some f \<and>
             r = analyze_success (new_Scan ae u f (performFoodAnalysis d)) \<and>
             w' = w\<lparr>scans := scans w @ [new_Scan ae u f (performFoodAnalysis d)]\<rparr>"
proof (cases "analyze_try fl ae d w file (Some u)")
  case (Inl e)
  with assms(1) have "analyze_catch fl w file e = (Some r, w')"
    by (simp add: analyze_handler_def)
  from analyze_catch_status [OF this] assms(2) show ?thesis by simp
next
  case (Inr p)
  with assms(1) have "analyze_try fl ae d w file (Some u) = Inr (r, w')"
    by (cases p) (simp add: analyze_handler_def)
  from analyze_try_ok [OF this assms(2)] show ?thesis .
qed

lemma upload_single_cases:
  "upload_single ae w part = (Inr file, w1) \<Longrightarrow>
     (part = None \<and> file = None \<and> w1 = w) \<or>
     (\<exists>p. part = Some p \<and> fileFilter p = None \<and> part_size p \<le> fileSizeLimit \<and>
          file = Some (stored_file ae p) \<and>
          w1 = w\<lparr>uploads := insert (storage_filename ae p) (uploads w)\<rparr>)"
  by (auto simp: upload_single_def split: option.splits if_splits)

lemma upload_single_error:
  "upload_single ae w part = (Inl e, w1) \<Longrightarrow> e = invalid_file_type \<or> e = file_too_large"
  by (auto simp: upload_single_def fileFilter_def split: option.splits if_splits)

lemma analyze_route_ok:
  assumes "analyze_route env fl ae d w hdr part = (Some r, w')" and "status r = 200"
  shows "\<exists>u p. authenticateToken env fl w hdr = Inr u \<and> part = Some p \<and>
           fileFilter p = None \<and> part_size p \<le> fileSizeLimit \<and>
           r = analyze_success (new_Scan ae u (stored_file ae p) (performFoodAnalysis d)) \<and>
           w' = w\<lparr>uploads := insert (storage_filename ae p) (uploads w),
                  scans := scans w @ [new_Scan ae u (stored_file ae p) (performFoodAnalysis d)]\<rparr>"
proof (cases "authenticateToken env fl w hdr")
  case (Inl x)
  with assms(1) have "r = x"
    by (simp add: analyze_route_def)
  with auth_status [OF Inl] assms(2) show ?thesis by simp
next
  case (Inr u)
  obtain res w1 where up: "upload_single ae w part = (res, w1)"
    by (cases "upload_single ae w part")
  show ?thesis
  proof (cases res)
    case (Inl e)
    with assms(1) Inr up have "r = errorMiddleware e"
      by (simp add: analyze_route_def)
    with upload_single_error [OF up [unfolded Inl]] assms(2) show ?thesis
      by auto
  next
    case (Inr fo)
    with assms(1) \<open>authenticateToken env fl w hdr = Inr u\<close> up
    have h: "analyze_handler fl ae d w1 fo (Some u) = (Some r, w')"
      by (simp add: analyze_route_def)
    from analyze_handler_ok [OF h assms(2)] obtain f where
      f: "fo = Some f" "r = analyze_success (new_Scan ae u f (performFoodAnalysis d))"
        "w' = w1\<lparr>scans := scans w1 @ [new_Scan ae u f (performFoodAnalysis d)]\<rparr>"
      by blast
    from upload_single_cases [OF up [unfolded Inr]] f(1) obtain p where
      p: "part = Some p" "fileFilter p = None" "part_size p \<le> fileSizeLimit"
        "f = stored_file ae p" "w1 = w\<lparr>uploads := insert (storage_filename ae p) (uploads w)\<rparr>"
      by auto
    show ?thesis
      using \<open>authenticateToken env fl w hdr = Inr u\<close> p f by simp
  qed
qed

lemma text_part_refused: "mimetype text_part \<notin> set allowedTypes"
  by (simp add: text_part_def allowedTypes_def)

lemma analyze_route_refused:
  assumes "authenticateToken env fl w hdr = Inr u" and "mimetype p \<notin> set allowedTypes"
  shows "analyze_route env fl ae d w hdr (Some p) = (Some (errorMiddleware invalid_file_type), w)"
  using assms by (simp add: analyze_route_def upload_single_def fileFilter_def)

lemma analyze_route_stored:
  assumes "authenticateToken env fl w hdr = Inr u"
    and "mimetype p \<in> set allowedTypes" and "part_size p \<le> fileSizeLimit"
  shows "analyze_route env fl ae d w hdr (Some p) =
         analyze_handler fl ae d (w\<lparr>uploads := insert (storage_filename ae p) (uploads w)\<rparr>)
           (Some (stored_file ae p)) (Some u)"
  using assms by (simp add: analyze_route_def upload_single_def fileFilter_def)

lemma analyze_catch_cleanup:
  assumes "\<not> unlinkThrows fl" and "err_code e \<noteq> Some ''LIMIT_FILE_SIZE''"
  shows "analyze_catch fl w (Some f) e =
         (Some (failure 500 (if err_message e = [] then ''Internal server error during analysis''
                             else err_message e)),
          w\<lparr>uploads := uploads w - {mf_filename f}\<rparr>)"
  using assms by (auto simp: analyze_catch_def Let_def existsSync_def unlinkSync_def)

lemma performFoodAnalysis_example: "performFoodAnalysis example_draws = example_analysis"
  by (simp add: performFoodAnalysis_def example_draws_def example_analysis_def js_index_def
      all_recommendations_def all_warnings_def)

lemma trim_blank: "trim ''   '' = []"
  by (simp add: trim_def js_space_def)

lemma trim_apple: "trim ''apple.jpg'' = ''apple.jpg''"
  by (simp add: trim_def js_space_def)

lemma validate_blank:
  "validate_scan (stored_file example_ae blank_part) example_analysis =
     [(''fileName'', ''File name is required'')]"
  by (simp add: validate_scan_def blank_part_def trim_blank allowedTypes_def fileSizeLimit_def
      storage_filename_def example_analysis_def)

lemma validate_jpeg:
  "validate_scan (stored_file example_ae jpeg_part) example_analysis = []"
  by (simp add: validate_scan_def jpeg_part_def trim_apple allowedTypes_def fileSizeLimit_def
      storage_filename_def example_analysis_def)

lemma jpeg_part_accepted:
  "mimetype jpeg_part \<in> set allowedTypes" "part_size jpeg_part \<le> fileSizeLimit"
  by (simp_all add: jpeg_part_def allowedTypes_def fileSizeLimit_def)

lemma blank_part_accepted:
  "mimetype blank_part \<in> set allowedTypes" "part_size blank_part \<le> fileSizeLimit"
  by (simp_all add: blank_part_def allowedTypes_def fileSizeLimit_def)

lemma save_fails_sel [simp]:
  "\<not> userFindThrows save_fails" "\<not> unlinkThrows save_fails"
  "analysisRejects save_fails = None"
  "saveRejects save_fails = Some (plain_error ''connection lost'')"
  by (simp_all add: save_fails_def no_faults_def)

lemma storage_filename_examples:
  "storage_filename example_ae jpeg_part = ''scan-1700000000000-42.jpg''"
  "storage_filename example_ae blank_part = ''scan-1700000000000-42''"
  by (simp_all add: storage_filename_def example_ae_def jpeg_part_def blank_part_def)

lemma example_world_minus_new:
  "example_world\<lparr>uploads := uploads example_world - {''scan-1700000000000-42.jpg''}\<rparr> =
     example_world"
  "example_world\<lparr>uploads := uploads example_world - {''scan-1700000000000-42''}\<rparr> =
     example_world"
  by (simp_all add: example_world_def)

subsection \<open>The placeholder analysis\<close>

lemma analysis_bounds:
  assumes "0 \<le> d_score d" and "d_score d < 1" and "0 \<le> d_conf d" and "d_conf d < 1"
    and "mset (d_sort d all_recommendations) = mset all_recommendations"
  shows "60 \<le> a_qualityScore (performFoodAnalysis d)"
    and "a_qualityScore (performFoodAnalysis d) \<le> 99"
    and "7 / 10 \<le> confidence (a_metadata (performFoodAnalysis d))"
    and "confidence (a_metadata (performFoodAnalysis d)) < 1"
    and "length (a_recommendations (performFoodAnalysis d)) = 3"
    and "length (a_warnings (performFoodAnalysis d)) \<le> 2"
proof -
  have "0 \<le> d_score d * 40" "d_score d * 40 < 40"
    using assms(1,2) by simp_all
  then have "0 \<le> \<lfloor>d_score d * 40\<rfloor>" "\<lfloor>d_score d * 40\<rfloor> < 40"
    by (simp_all add: floor_less_iff)
  then show "60 \<le> a_qualityScore (performFoodAnalysis d)"
    and "a_qualityScore (performFoodAnalysis d) \<le> 99"
    by (simp_all add: performFoodAnalysis_def)
  show "7 / 10 \<le> confidence (a_metadata (performFoodAnalysis d))"
    and "confidence (a_metadata (performFoodAnalysis d)) < 1"
    using assms(3,4) by (simp_all add: performFoodAnalysis_def)
  have "length (d_sort d all_recommendations) = length all_recommendations"
    using assms(5) by (rule mset_eq_length)
  then show "length (a_recommendations (performFoodAnalysis d)) = 3"
    by (simp add: performFoodAnalysis_def all_recommendations_def)
  have "length (take n all_warnings) \<le> 2" for n
    by (simp add: all_warnings_def)
  then show "length (a_warnings (performFoodAnalysis d)) \<le> 2"
    by (simp add: performFoodAnalysis_def del: length_take)
qed

lemma new_Scan_sel [simp]:
  "scan_id (new_Scan ae u f a) = newId ae"
  "userId (new_Scan ae u f a) = user_id u"
  "filePath (new_Scan ae u f a) = mf_filename f"
  "qualityScore (new_Scan ae u f a) = a_qualityScore a"
  "recommendations (new_Scan ae u f a) = map trim (a_recommendations a)"
  "warnings (new_Scan ae u f a) = map trim (a_warnings a)"
  "analysisMetadata (new_Scan ae u f a) = a_metadata a"
  "createdAt (new_Scan ae u f a) = saveNow ae"
  by (simp_all add: new_Scan_def)

subsection \<open>Keys of a response\<close>

lemma has_key_strings [simp]: "\<not> list_ex (has_key k) (map JStr xs)"
  by (induction xs) simp_all

lemma has_key_failure [simp]: "\<not> has_key ''filePath'' (body (failure st msg))"
  by (simp add: failure_def)


lemma has_key_errorMiddleware [simp]: "\<not> has_key ''filePath'' (body (errorMiddleware e))"
  by (simp add: errorMiddleware_def)

lemma has_key_metadata [simp]: "\<not> has_key ''filePath'' (metadata_json m)"
  by (simp add: metadata_json_def)

lemma has_key_analyze_success [simp]: "\<not> has_key ''filePath'' (body (analyze_success s))"
  by (simp add: analyze_success_def analyze_data_def)

lemma has_key_projected [simp]:
  "\<not> has_key ''filePath'' (toJSON (select_minus ''filePath'' (scan_doc s)))"
  by (simp add: toJSON_def select_minus_def scan_doc_def)

lemma has_key_projected_list [simp]:
  "\<not> list_ex (has_key ''filePath'')
       (map (\<lambda>s. toJSON (select_minus ''filePath'' (scan_doc s))) xs)"
  by (induction xs) simp_all








lemma fileUrl_projected:
  "fileUrl (select_minus ''filePath'' (scan_doc s)) = ''/uploads/undefined''"
  by (simp add: fileUrl_def select_minus_def scan_doc_def template_string_def)




lemma analyze_example:
  "analyze_route example_env no_faults example_ae example_draws example_world
     (Some ''Bearer tokA'') (Some jpeg_part) =
     (Some (analyze_success example_new_scan), example_world_after)"
proof -
  have "newId example_ae \<notin> scan_id ` set example_db"
    by (simp add: example_ae_def example_db_def)
  then have "analyze_handler no_faults example_ae example_draws
      (example_world\<lparr>uploads := insert (storage_filename example_ae jpeg_part) (uploads example_world)\<rparr>)
      (Some (stored_file example_ae jpeg_part)) (Some (example_user ''A'')) =
      (Some (analyze_success example_new_scan), example_world_after)"
    by (simp add: analyze_handler_def analyze_try_def Scan_save_def performFoodAnalysis_example
        validate_jpeg example_new_scan_def example_world_after_def storage_filename_examples)
  then show ?thesis
    by (simp add: analyze_route_stored [OF auth_A jpeg_part_accepted])
qed


lemma example_draws_in_range:
  "0 \<le> d_score example_draws" "d_score example_draws < 1"
  "0 \<le> d_conf example_draws" "d_conf example_draws < 1"
  "mset (d_sort example_draws all_recommendations) = mset all_recommendations"
  by (simp_all add: example_draws_def)

subsection \<open>Unique ids are kept\<close>

lemma unique_ids_delete: "unique_ids w \<Longrightarrow> unique_ids (snd (delete_handler fl w usr i))"
  by (auto simp: unique_ids_def delete_handler_def Let_def unlinkSync_def
      Scan_findByIdAndDelete_def distinct_delete_first split: option.splits)

lemma unique_ids_account_delete:
  "unique_ids w \<Longrightarrow> unique_ids (snd (account_delete_handler cmp fl w usr pw))"
  by (auto simp: unique_ids_def account_delete_handler_def Let_def distinct_map_filter
      split: option.splits)

lemma unique_ids_analyze_try:
  "unique_ids w \<Longrightarrow> analyze_try fl ae d w fo usr = Inr (r, w') \<Longrightarrow> unique_ids w'"
  by (auto simp: unique_ids_def analyze_try_def Scan_save_def
      split: option.splits sum.splits if_splits)

lemma unique_ids_analyze:
  assumes "unique_ids w"
  shows "unique_ids (snd (analyze_handler fl ae d w fo usr))"
proof (cases "analyze_try fl ae d w fo usr")
  case (Inl e)
  then show ?thesis
    using assms
    by (auto simp: analyze_handler_def analyze_catch_def Let_def unique_ids_def unlinkSync_def)
next
  case (Inr p)
  then show ?thesis
    using unique_ids_analyze_try [OF assms, of fl ae d fo usr "fst p" "snd p"]
    by (cases p) (simp add: analyze_handler_def)
qed

subsection \<open>The public form of a document\<close>

lemma public_doc_id: "json_get ''_id'' (public_doc s) = Some (JStr (scan_id s))"
  by (simp add: toJSON_def select_minus_def scan_doc_def json_get_def)

lemma ids_of_docs:
  "map (json_get ''_id'') (map public_doc xs) = map (\<lambda>s. Some (JStr (scan_id s))) xs"
  by (simp add: public_doc_id)

lemma ids_of_docs_mset:
  "image_mset (json_get ''_id'') (mset (map public_doc xs)) =
     mset (map (\<lambda>s. Some (JStr (scan_id s))) xs)"
  by (induction xs) (simp_all add: public_doc_id)

lemma distinct_public_docs:
  assumes "distinct (map scan_id xs)"
  shows "distinct (map public_doc xs)"
proof -
  have "distinct xs" and i: "inj_on scan_id (set xs)"
    using assms by (simp_all add: distinct_map)
  moreover have "inj_on public_doc (set xs)"
  proof (rule inj_onI)
    fix a b
    assume "a \<in> set xs" "b \<in> set xs" "public_doc a = public_doc b"
    then have "json_get ''_id'' (public_doc a) = json_get ''_id'' (public_doc b)"
      by simp
    then have "scan_id a = scan_id b"
      by (simp add: public_doc_id)
    with i \<open>a \<in> set xs\<close> \<open>b \<in> set xs\<close> show "a = b"
      by (meson inj_onD)
  qed
  ultimately show ?thesis
    by (simp add: distinct_map)
qed

subsection \<open>Other blob names\<close>


lemma repath_sel [simp]:
  "users (repath g w) = users w"
  "scans (repath g w) = map (\<lambda>s. s\<lparr>filePath := g s\<rparr>) (scans w)"
  by (simp_all add: repath_def)

lemma matches_repath [simp]: "matches f (s\<lparr>filePath := p\<rparr>) = matches f s"
  by (simp add: matches_def split: option.splits)








lemma tie_world_sel [simp]:
  "scans tie_world = [tie_1, tie_2]"
  "users tie_world = [example_user ''A'', example_user ''B'']"
  by (simp_all add: tie_world_def)

lemmas auth_tie = auth_example_A [OF no_faults_sel(4) tie_world_sel(2)]

section \<open>Claims\<close>

subsection \<open>Pagination of the history\<close>

text \<open>
  C6, as the specification states it, has the pages 1 to \<open>pages\<close> reproduce the filtered
  records exactly once each, a secondary unique key deciding between equal creation times.
  The query sorts by \<open>createdAt\<close> only. Account \<open>A\<close> has the two documents 1 and 2 of
  equal creation time and asks for pages of one document; the response reports 2 pages.
  The store answers the query for page 1 with the order 1, 2 and the query for page 2 with
  the order 2, 1: both pages hold document 1, and document 2 is on neither.
\<close>

theorem history_tie_order_counterexample:
  "createdAt tie_1 = createdAt tie_2 \<and> scan_id tie_1 = ''1'' \<and> scan_id tie_2 = ''2'' \<and>
   reported_pages (history_route example_env no_faults (flip_ranks 1) tie_world
     (Some ''Bearer tokA'') (example_query (Some 1) (Some 1))) = 2 \<and>
   map (json_get ''_id'') (listed (history_route example_env no_faults (flip_ranks 1) tie_world
     (Some ''Bearer tokA'') (example_query (Some 1) (Some 1)))) = [Some (JStr ''1'')] \<and>
   map (json_get ''_id'') (listed (history_route example_env no_faults (flip_ranks 2) tie_world
     (Some ''Bearer tokA'') (example_query (Some 2) (Some 1)))) = [Some (JStr ''1'')] \<and>
   map (json_get ''_id'') (all_pages example_env no_faults flip_ranks tie_world
     (Some ''Bearer tokA'') (example_query None (Some 1))) = [Some (JStr ''1''), Some (JStr ''1'')]"
proof -
  have sk: "0 \<le> skip_of (example_query (Some p) (Some 1))" if "0 < p" for p
    using that by (simp add: skip_of_def page_of_def limit_of_def or_default_def)
  note r1 = history_route_reads [OF auth_tie no_faults_sel(1,2) sk [of 1], of "flip_ranks 1"]
  note r2 = history_route_reads [OF auth_tie no_faults_sel(1,2) sk [of 2], of "flip_ranks 2"]
  have p1: "history_page (flip_ranks 1) (user_id (example_user ''A''))
      (example_query (Some 1) (Some 1)) (scans tie_world) = [tie_1]"
    by (simp add: history_page_def Scan_find_sorted_def skip_of_def page_of_def limit_of_def
        or_default_def flip_ranks_def tie_1_def tie_2_def)
  have p2: "history_page (flip_ranks 2) (user_id (example_user ''A''))
      (example_query (Some 2) (Some 1)) (scans tie_world) = [tie_1]"
    by (simp add: history_page_def Scan_find_sorted_def skip_of_def page_of_def limit_of_def
        or_default_def flip_ranks_def tie_1_def tie_2_def)
  have n: "reported_pages (history_route example_env no_faults (flip_ranks 1) tie_world
      (Some ''Bearer tokA'') (example_query (Some 1) (Some 1))) = 2"
    using r1(2) by (simp add: countDocuments_def pages_of_def limit_of_def or_default_def
        tie_1_def tie_2_def)
  have l1: "listed (history_route example_env no_faults (flip_ranks 1) tie_world
      (Some ''Bearer tokA'') (example_query (Some 1) (Some 1))) = [public_doc tie_1]"
    by (simp only: r1(1) p1 list.map)
  have l2: "listed (history_route example_env no_faults (flip_ranks 2) tie_world
      (Some ''Bearer tokA'') (example_query (Some 2) (Some 1))) = [public_doc tie_1]"
    by (simp only: r2(1) p2 list.map)
  have q: "(example_query None (Some 1))\<lparr>q_page := Some p\<rparr> = example_query (Some p) (Some 1)"
    for p
    by (simp add: example_query_def)
  have u: "[1..<Suc (nat 2)] = [1, 2]"
    by (simp add: upt_rec)
  have "all_pages example_env no_faults flip_ranks tie_world (Some ''Bearer tokA'')
      (example_query None (Some 1)) = [public_doc tie_1, public_doc tie_1]"
    unfolding all_pages_def q n u using l1 l2 by simp
  then show ?thesis
    using n l1 l2 by (simp add: public_doc_id) (simp add: tie_1_def tie_2_def)
qed

text \<open>
  C6, amended: for every owner, every filter set and every positive page size, when no two
  matching records have the same creation time, or the store returns records of equal
  creation time in the same order in every page query, the pages 1 to \<open>pages\<close> of
  \<open>GET /history\<close> one after the other are the matching records, every one exactly as
  often as the collection holds it (once, ids being unique), newest first by creation
  time. The sort has no secondary key: the order among equal creation times is the
  store's.
\<close>

theorem history_pagination_complete:
  assumes "authenticateToken env fl w hdr = Inr u"
    and "\<not> scanFindThrows fl" and "\<not> scanCountThrows fl" and "0 < limit_of q"
    and "distinct (map createdAt (filter (matches (build_filters (user_id u) q)) (scans w))) \<or>
         (\<forall>p. ranks p = ranks 1)"
  shows "all_pages env fl ranks w hdr q =
           map public_doc (Scan_find_sorted (ranks 1) (build_filters (user_id u) q) (scans w)) \<and>
         mset (Scan_find_sorted (ranks 1) (build_filters (user_id u) q) (scans w)) =
           mset (filter (matches (build_filters (user_id u) q)) (scans w)) \<and>
         sorted_wrt (\<lambda>a b. createdAt b \<le> createdAt a)
           (Scan_find_sorted (ranks 1) (build_filters (user_id u) q) (scans w)) \<and>
         (unique_ids w \<longrightarrow> distinct (all_pages env fl ranks w hdr q)) \<and>
         (distinct (map createdAt (filter (matches (build_filters (user_id u) q)) (scans w))) \<longrightarrow>
            Scan_find_sorted (ranks 1) (build_filters (user_id u) q) (scans w) =
              sort_key (\<lambda>s. - createdAt s)
                (filter (matches (build_filters (user_id u) q)) (scans w)))"
proof -
  let ?F = "build_filters (user_id u) q"
  let ?S = "Scan_find_sorted (ranks 1) ?F (scans w)"
  have same: "Scan_find_sorted (ranks p) ?F (scans w) = ?S" for p
    using assms(5)
  proof
    assume "distinct (map createdAt (filter (matches ?F) (scans w)))"
    then show ?thesis
      by (simp add: find_sorted_no_ties)
  next
    assume "\<forall>p. ranks p = ranks 1"
    then have "ranks p = ranks 1"
      by (rule spec)
    then show ?thesis
      by (simp only:)
  qed
  have all: "all_pages env fl ranks w hdr q = map public_doc ?S"
    using assms(1-4) same by (rule all_pages_same_order)
  have d: "distinct (all_pages env fl ranks w hdr q)" if "unique_ids w"
    unfolding all
    using that by (intro distinct_public_docs distinct_ids_find_sorted) (simp add: unique_ids_def)
  show ?thesis
    using all d mset_find_sorted [of "ranks 1" ?F "scans w"]
      newest_first_find_sorted [of "ranks 1" ?F "scans w"]
      find_sorted_no_ties [of ?F "scans w" "ranks 1"]
    by blast
qed

theorem history_pagination_complete_witness:
  "authenticateToken example_env no_faults example_world (Some ''Bearer tokA'') =
     Inr (example_user ''A'') \<and>
   \<not> scanFindThrows no_faults \<and> \<not> scanCountThrows no_faults \<and>
   0 < limit_of (example_query None (Some 2)) \<and>
   distinct (map createdAt (filter
     (matches (build_filters (user_id (example_user ''A'')) (example_query None (Some 2))))
     (scans example_world))) \<and>
   shifting_ranks 1 \<noteq> shifting_ranks 2 \<and>
   map (json_get ''_id'') (all_pages example_env no_faults shifting_ranks example_world
     (Some ''Bearer tokA'') (example_query None (Some 2))) =
     [Some (JStr ''5''), Some (JStr ''3''), Some (JStr ''4''), Some (JStr ''1'')] \<and>
   map (json_get ''_id'') (all_pages example_env no_faults (\<lambda>p. storage_rank) tie_world
     (Some ''Bearer tokA'') (example_query None (Some 1))) =
     [Some (JStr ''1''), Some (JStr ''2'')]"
proof -
  have lim2: "0 < limit_of (example_query None (Some 2))"
    by (simp add: limit_of_def or_default_def)
  have lim1: "0 < limit_of (example_query None (Some 1))"
    by (simp add: limit_of_def or_default_def)
  have dist: "distinct (map createdAt (filter
      (matches (build_filters (user_id (example_user ''A'')) (example_query None (Some 2))))
      (scans example_world)))"
    by (simp add: example_db_def)
  have same: "\<forall>p. (\<lambda>p. storage_rank) p = (\<lambda>p. storage_rank) (1::nat)"
    by simp
  note t1 = history_pagination_complete [OF auth_A no_faults_sel(1,2) lim2 disjI1 [OF dist],
      of shifting_ranks]
  note t2 = history_pagination_complete [OF auth_tie no_faults_sel(1,2) lim1,
      of "\<lambda>p. storage_rank", OF disjI2 [OF same]]
  have a1: "all_pages example_env no_faults shifting_ranks example_world (Some ''Bearer tokA'')
      (example_query None (Some 2)) =
      map public_doc (sort_key (\<lambda>s. - createdAt s) (filter
        (matches (build_filters (user_id (example_user ''A'')) (example_query None (Some 2))))
        (scans example_world)))"
    using t1 dist by metis
  have a2: "all_pages example_env no_faults (\<lambda>p. storage_rank) tie_world (Some ''Bearer tokA'')
      (example_query None (Some 1)) =
      map public_doc (Scan_find_sorted storage_rank
        (build_filters (user_id (example_user ''A'')) (example_query None (Some 1)))
        (scans tie_world))"
    using t2 by (rule conjunct1)
  have e1: "map scan_id (sort_key (\<lambda>s. - createdAt s) (filter
        (matches (build_filters (user_id (example_user ''A'')) (example_query None (Some 2))))
        (scans example_world))) = [''5'', ''3'', ''4'', ''1'']"
    by (simp add: example_db_def)
  have e2: "map scan_id (Scan_find_sorted storage_rank
        (build_filters (user_id (example_user ''A'')) (example_query None (Some 1)))
        (scans tie_world)) = [''1'', ''2'']"
    by (simp add: Scan_find_sorted_def storage_rank_def tie_1_def tie_2_def)
  have i: "map (json_get ''_id'') (map public_doc xs) = map (\<lambda>i. Some (JStr i)) (map scan_id xs)"
    for xs
    by (simp add: public_doc_id)
  have r: "shifting_ranks 1 \<noteq> shifting_ranks 2"
  proof
    assume "shifting_ranks 1 = shifting_ranks 2"
    then have "shifting_ranks 1 ''1'' = shifting_ranks 2 ''1''"
      by simp
    then show False
      by (simp add: shifting_ranks_def)
  qed
  show ?thesis
    using auth_A lim2 dist r unfolding a1 a2 i e1 e2 by simp
qed

subsection \<open>Filters of the history\<close>

text \<open>
  C7: for an authenticated caller whose queries do not throw, \<open>GET /history\<close> with
  \<open>minScore\<close> and \<open>maxScore\<close> both given answers 200, lists only records of the owner with
  the score in the inclusive range, further restricted to the freshness when one is given,
  and reports their number as the total; when one page holds them all it lists exactly
  these records, and all pages together, from a store that keeps one order in every page
  query, list exactly these records.
\<close>

theorem history_filters_conjunctive:
  assumes "authenticateToken env fl w hdr = Inr u"
    and "\<not> scanFindThrows fl" and "\<not> scanCountThrows fl" and "0 \<le> skip_of q"
    and "q_minScore q = Some lo" and "q_maxScore q = Some hi"
    and "q_freshness q = g" and "g \<noteq> Some []"
  shows "status (history_route env fl rank w hdr q) = 200 \<and>
         set (listed (history_route env fl rank w hdr q)) \<subseteq>
           public_doc ` {s \<in> set (scans w). spec_band (user_id u) lo hi g s} \<and>
         json_path [''data'', ''pagination'', ''total''] (body (history_route env fl rank w hdr q)) =
           Some (JNum (of_nat (length (filter (spec_band (user_id u) lo hi g) (scans w))))) \<and>
         (page_of q = 1 \<and>
          int (length (filter (spec_band (user_id u) lo hi g) (scans w))) \<le> \<bar>limit_of q\<bar> \<longrightarrow>
            mset (listed (history_route env fl rank w hdr q)) =
              mset (map public_doc (filter (spec_band (user_id u) lo hi g) (scans w)))) \<and>
         (0 < limit_of q \<longrightarrow>
            mset (all_pages env fl (\<lambda>p. rank) w hdr q) =
              mset (map public_doc (filter (spec_band (user_id u) lo hi g) (scans w)))) \<and>
         filter (matches (build_filters (user_id u) q)) (scans w) =
           filter (spec_band (user_id u) lo hi g) (scans w)"
proof -
  let ?F = "build_filters (user_id u) q"
  let ?S = "Scan_find_sorted rank ?F (scans w)"
  let ?B = "filter (spec_band (user_id u) lo hi g) (scans w)"
  let ?R = "history_route env fl rank w hdr q"
  note rd = history_route_reads [OF assms(1-4), of rank]
  have m: "matches ?F = spec_band (user_id u) lo hi g"
    using assms(5-8)
    by (auto simp: fun_eq_iff matches_def build_filters_def spec_band_def in_range_def
        split: option.splits)
  have msS: "mset ?S = mset ?B"
    by (simp add: mset_find_sorted m)
  have "set (history_page rank (user_id u) q (scans w)) \<subseteq> set ?S"
    unfolding history_page_def by (meson set_take_subset set_drop_subset subset_trans)
  then have sub: "set (listed ?R) \<subseteq> public_doc ` {s \<in> set (scans w). spec_band (user_id u) lo hi g s}"
    unfolding rd(1) by (auto simp: set_find_sorted m)
  have tot: "json_path [''data'', ''pagination'', ''total''] (body ?R) =
      Some (JNum (of_nat (length ?B)))"
    unfolding rd(3) by (simp add: countDocuments_def m)
  have one: "mset (listed ?R) = mset (map public_doc ?B)"
    if "page_of q = 1" "int (length ?B) \<le> \<bar>limit_of q\<bar>"
  proof -
    have "length ?S = length ?B"
      using msS by (rule mset_eq_length)
    with that have "history_page rank (user_id u) q (scans w) = ?S"
      by (simp add: history_page_def skip_of_def)
    then show ?thesis
      unfolding rd(1) using msS by simp
  qed
  have every: "mset (all_pages env fl (\<lambda>p. rank) w hdr q) = mset (map public_doc ?B)"
    if "0 < limit_of q"
  proof -
    have "all_pages env fl (\<lambda>p. rank) w hdr q = map public_doc ?S"
      using assms(1-3) that by (rule all_pages_same_order) simp
    then show ?thesis
      using msS by simp
  qed
  show ?thesis
    using rd(4) sub tot one every by (simp add: m)
qed

theorem history_filters_conjunctive_witness:
  "authenticateToken example_env no_faults example_world (Some ''Bearer tokA'') =
     Inr (example_user ''A'') \<and>
   0 \<le> skip_of (band_query None) \<and>
   q_minScore (band_query (Some ''Good'')) = Some 70 \<and>
   q_maxScore (band_query (Some ''Good'')) = Some 89 \<and>
   page_of (band_query None) = 1 \<and> 0 < limit_of (band_query None) \<and>
   status (history_route example_env no_faults storage_rank example_world
     (Some ''Bearer tokA'') (band_query None)) = 200 \<and>
   json_path [''data'', ''pagination'', ''total'']
     (body (history_route example_env no_faults storage_rank example_world
        (Some ''Bearer tokA'') (band_query None))) = Some (JNum 2) \<and>
   image_mset (json_get ''_id'')
     (mset (listed (history_route example_env no_faults storage_rank example_world
        (Some ''Bearer tokA'') (band_query None)))) = {#Some (JStr ''1''), Some (JStr ''3'')#} \<and>
   image_mset (json_get ''_id'')
     (mset (listed (history_route example_env no_faults storage_rank example_world
        (Some ''Bearer tokA'') (band_query (Some ''Good''))))) = {#Some (JStr ''1'')#} \<and>
   image_mset (json_get ''_id'')
     (mset (all_pages example_env no_faults (\<lambda>p. storage_rank) example_world
        (Some ''Bearer tokA'') (band_query None))) = {#Some (JStr ''1''), Some (JStr ''3'')#}"
proof -
  have a: "q_minScore (band_query g) = Some 70" "q_maxScore (band_query g) = Some 89"
    "q_freshness (band_query g) = g" for g
    by (simp_all add: band_query_def)
  have k: "0 \<le> skip_of (band_query g)" "page_of (band_query g) = 1"
    "0 < limit_of (band_query g)" "\<bar>limit_of (band_query g)\<bar> = 10" for g
    by (simp_all add: band_query_def skip_of_def page_of_def limit_of_def or_default_def)
  have n: "None \<noteq> Some ([] :: string)" "Some ''Good'' \<noteq> Some []"
    by simp_all
  note t1 = history_filters_conjunctive [OF auth_A no_faults_sel(1,2) k(1) a n(1),
      of storage_rank]
  note t2 = history_filters_conjunctive [OF auth_A no_faults_sel(1,2) k(1) a n(2),
      of storage_rank]
  have b1: "filter (spec_band (user_id (example_user ''A'')) 70 89 None) (scans example_world) =
      [example_scan ''1'' ''A'' ''scan-1.jpg'' 80 ''Good'' 1000,
       example_scan ''3'' ''A'' ''scan-3.jpg'' 70 ''Fair'' 3000]"
    by (simp add: spec_band_def example_db_def)
  have b2: "filter (spec_band (user_id (example_user ''A'')) 70 89 (Some ''Good''))
      (scans example_world) = [example_scan ''1'' ''A'' ''scan-1.jpg'' 80 ''Good'' 1000]"
    by (simp add: spec_band_def example_db_def)
  have s: "status (history_route example_env no_faults storage_rank example_world
      (Some ''Bearer tokA'') (band_query None)) = 200"
    using t1 by (rule conjunct1)
  have tt: "json_path [''data'', ''pagination'', ''total'']
      (body (history_route example_env no_faults storage_rank example_world
        (Some ''Bearer tokA'') (band_query None))) = Some (JNum 2)"
    using t1 unfolding b1 by simp
  have l1: "mset (listed (history_route example_env no_faults storage_rank example_world
      (Some ''Bearer tokA'') (band_query None))) =
      mset (map public_doc [example_scan ''1'' ''A'' ''scan-1.jpg'' 80 ''Good'' 1000,
                            example_scan ''3'' ''A'' ''scan-3.jpg'' 70 ''Fair'' 3000])"
    using t1 k(2,4) [of None] unfolding b1 by simp
  have l2: "mset (listed (history_route example_env no_faults storage_rank example_world
      (Some ''Bearer tokA'') (band_query (Some ''Good'')))) =
      mset (map public_doc [example_scan ''1'' ''A'' ''scan-1.jpg'' 80 ''Good'' 1000])"
    using t2 k(2,4) [of "Some ''Good''"] unfolding b2 by simp
  have l3: "mset (all_pages example_env no_faults (\<lambda>p. storage_rank) example_world
      (Some ''Bearer tokA'') (band_query None)) =
      mset (map public_doc [example_scan ''1'' ''A'' ''scan-1.jpg'' 80 ''Good'' 1000,
                            example_scan ''3'' ''A'' ''scan-3.jpg'' 70 ''Fair'' 3000])"
    using t1 k(3) [of None] unfolding b1 by simp
  show ?thesis
    using auth_A a k s tt unfolding l1 l2 l3 ids_of_docs_mset by simp
qed

subsection \<open>Ownership of a scan\<close>

text \<open>
  C1: for a caller the middleware has authenticated and a lookup that does not throw, a
  record id that no record of the caller carries (no record has it, or only records of
  other accounts have it) gets the one response \<open>scanNotFound\<close>, status 404, from
  \<open>GET /:scanId\<close> and from \<open>DELETE /:scanId\<close>, and the delete changes nothing. A
  successful \<open>GET\<close> returns a record the caller owns, and a \<open>DELETE\<close> leaves the records
  of every other account as they were.
\<close>

theorem scan_access_not_found_collapse:
  assumes "authenticateToken env fl w hdr = Inr u" and "\<not> scanFindThrows fl"
  shows "((\<forall>s\<in>set (scans w). scan_id s = i \<longrightarrow> userId s \<noteq> user_id u) \<longrightarrow>
            get_scan_route env fl w hdr i = scanNotFound \<and>
            delete_scan_route env fl w hdr i = (scanNotFound, w)) \<and>
         status scanNotFound = 404 \<and>
         (status (get_scan_route env fl w hdr i) = 200 \<longrightarrow>
            (\<exists>s\<in>set (scans w). scan_id s = i \<and> userId s = user_id u \<and>
               get_scan_route env fl w hdr i =
                 success_data (toJSON (select_minus ''filePath'' (scan_doc s))))) \<and>
         (unique_ids w \<longrightarrow>
            filter (\<lambda>s. userId s \<noteq> user_id u) (scans (snd (delete_scan_route env fl w hdr i))) =
            filter (\<lambda>s. userId s \<noteq> user_id u) (scans w))"
proof -
  have g: "get_scan_route env fl w hdr i = getById_handler fl w (Some u) i"
    using assms(1) by (simp add: get_scan_route_def)
  have d: "delete_scan_route env fl w hdr i = delete_handler fl w (Some u) i"
    using assms(1) by (simp add: delete_scan_route_def)
  show ?thesis
    unfolding g d
    using getById_not_owned [OF assms(2)] delete_not_owned [OF assms(2)] getById_ok
      delete_keeps_others
    by simp
qed

theorem scan_access_not_found_collapse_witness:
  "authenticateToken example_env no_faults example_world (Some ''Bearer tokA'') =
     Inr (example_user ''A'') \<and>
   \<not> scanFindThrows no_faults \<and>
   userId (example_scan ''2'' ''B'' ''scan-2.jpg'' 90 ''Good'' 2000) \<noteq> user_id (example_user ''A'') \<and>
   example_scan ''2'' ''B'' ''scan-2.jpg'' 90 ''Good'' 2000 \<in> set (scans example_world) \<and>
   get_scan_route example_env no_faults example_world (Some ''Bearer tokA'') ''2'' = scanNotFound \<and>
   get_scan_route example_env no_faults example_world (Some ''Bearer tokA'') ''9'' = scanNotFound \<and>
   delete_scan_route example_env no_faults example_world (Some ''Bearer tokA'') ''2'' =
     (scanNotFound, example_world) \<and>
   delete_scan_route example_env no_faults example_world (Some ''Bearer tokA'') ''9'' =
     (scanNotFound, example_world) \<and>
   status (get_scan_route example_env no_faults example_world (Some ''Bearer tokA'') ''1'') = 200 \<and>
   unique_ids example_world"
proof -
  note t = scan_access_not_found_collapse [OF auth_A no_faults_sel(1)]
  have h2: "\<forall>s\<in>set (scans example_world). scan_id s = ''2'' \<longrightarrow> userId s \<noteq> user_id (example_user ''A'')"
    by (simp add: example_db_def)
  have h9: "\<forall>s\<in>set (scans example_world). scan_id s = ''9'' \<longrightarrow> userId s \<noteq> user_id (example_user ''A'')"
    by (simp add: example_db_def)
  have r2: "get_scan_route example_env no_faults example_world (Some ''Bearer tokA'') ''2'' = scanNotFound \<and>
      delete_scan_route example_env no_faults example_world (Some ''Bearer tokA'') ''2'' =
        (scanNotFound, example_world)"
    using t [of "''2''"] h2 by blast
  have r9: "get_scan_route example_env no_faults example_world (Some ''Bearer tokA'') ''9'' = scanNotFound \<and>
      delete_scan_route example_env no_faults example_world (Some ''Bearer tokA'') ''9'' =
        (scanNotFound, example_world)"
    using t [of "''9''"] h9 by blast
  have ok: "status (get_scan_route example_env no_faults example_world (Some ''Bearer tokA'') ''1'') = 200"
    by (simp add: get_scan_route_def auth_A getById_handler_def Scan_findOne_def
        example_db_def)
  have u: "unique_ids example_world"
    by (simp add: unique_ids_def example_db_def)
  have m: "example_scan ''2'' ''B'' ''scan-2.jpg'' 90 ''Good'' 2000 \<in> set (scans example_world)"
    by (simp add: example_db_def)
  show ?thesis
    using auth_A r2 r9 ok u m by simp
qed

subsection \<open>Deleting a scan\<close>

text \<open>
  C5: when \<open>DELETE /:scanId\<close> answers 200 in a store with unique ids, a record with the
  id was there, it is gone, no record with the id remains, its file does not exist any
  more, and a later \<open>GET /:scanId\<close> of the same caller (whose lookups do not throw) gets
  \<open>scanNotFound\<close>, status 404.
\<close>

theorem delete_removes_record_and_blob:
  assumes "delete_scan_route env fl w hdr i = (r, w')" and "status r = 200"
    and "unique_ids w" and "\<not> scanFindThrows fl'" and "\<not> userFindThrows fl'"
  shows "get_scan_route env fl' w' hdr i = scanNotFound \<and>
         status scanNotFound = 404 \<and>
         (\<exists>s\<in>set (scans w). scan_id s = i \<and> s \<notin> set (scans w') \<and>
            \<not> existsSync w' (filePath s)) \<and>
         (\<forall>s\<in>set (scans w'). scan_id s \<noteq> i)"
proof -
  from delete_route_ok [OF assms(1,2)] obtain u where
    auth: "authenticateToken env fl w hdr = Inr u" and
    h: "delete_handler fl w (Some u) i = (r, w')"
    by blast
  from delete_ok [OF h assms(2)] obtain s where
    s: "Scan_findOne i (user_id u) (scans w) = Some s" and
    up: "uploads w' = uploads w - {filePath s}" and
    sc: "scans w' = Scan_findByIdAndDelete i (scans w)" and
    us: "users w' = users w"
    by blast
  have d: "distinct (map scan_id (scans w))"
    using assms(3) by (simp add: unique_ids_def)
  have gone: "\<forall>x\<in>set (scans w'). scan_id x \<noteq> i"
    unfolding sc Scan_findByIdAndDelete_def delete_first_distinct [OF d] by simp
  have "authenticateToken env fl' w' hdr = Inr u"
    using auth us assms(5) by (rule auth_same_users)
  then have get: "get_scan_route env fl' w' hdr i = scanNotFound"
    using assms(4) findOne_after_delete [OF d, of i "user_id u"]
    by (simp add: get_scan_route_def getById_handler_def sc)
  have "s \<in> set (scans w)" "scan_id s = i"
    using findOne_Some [OF s] by simp_all
  moreover from this gone have "s \<notin> set (scans w')"
    by blast
  moreover have "\<not> existsSync w' (filePath s)"
    by (simp add: existsSync_def up)
  ultimately show ?thesis
    using get gone by auto
qed

theorem delete_removes_record_and_blob_witness:
  "status (fst (delete_scan_route example_env no_faults example_world (Some ''Bearer tokA'') ''1'')) = 200 \<and>
   unique_ids example_world \<and> \<not> scanFindThrows no_faults \<and> \<not> userFindThrows no_faults \<and>
   get_scan_route example_env no_faults
     (snd (delete_scan_route example_env no_faults example_world (Some ''Bearer tokA'') ''1''))
     (Some ''Bearer tokA'') ''1'' = scanNotFound \<and>
   filePath (example_scan ''1'' ''A'' ''scan-1.jpg'' 80 ''Good'' 1000) = ''scan-1.jpg'' \<and>
   existsSync example_world ''scan-1.jpg'' \<and>
   \<not> existsSync
     (snd (delete_scan_route example_env no_faults example_world (Some ''Bearer tokA'') ''1''))
     ''scan-1.jpg''"
proof -
  have ok: "status (fst (delete_scan_route example_env no_faults example_world
      (Some ''Bearer tokA'') ''1'')) = 200"
    by (simp add: delete_scan_route_def auth_A delete_handler_def Scan_findOne_def
        example_db_def existsSync_def Let_def)
  have u: "unique_ids example_world"
    by (simp add: unique_ids_def example_db_def)
  note t = delete_removes_record_and_blob [OF prod.collapse [symmetric] ok u
      no_faults_sel(1) no_faults_sel(4)]
  have g: "get_scan_route example_env no_faults
     (snd (delete_scan_route example_env no_faults example_world (Some ''Bearer tokA'') ''1''))
     (Some ''Bearer tokA'') ''1'' = scanNotFound"
    using t by (rule conjunct1)
  have e: "\<not> existsSync
     (snd (delete_scan_route example_env no_faults example_world (Some ''Bearer tokA'') ''1''))
     ''scan-1.jpg''"
    by (simp add: delete_scan_route_def auth_A delete_handler_def Scan_findOne_def
        example_db_def existsSync_def unlinkSync_def Let_def)
  show ?thesis
    using ok u g e by (simp add: existsSync_def)
qed

text \<open>
  C4, as the specification states it, has the record deleted first and the operation
  report success when the deletion of the blob then fails. Account \<open>A\<close> deletes its
  record 1, whose file exists, in a request where \<open>fs.unlinkSync\<close> throws: the answer is
  \<open>delete_failed\<close>, status 500, and the world is unchanged, the record still stored.
\<close>

theorem delete_blob_failure_counterexample:
  "unlinkThrows unlink_fails \<and>
   existsSync example_world ''scan-1.jpg'' \<and>
   delete_scan_route example_env unlink_fails example_world (Some ''Bearer tokA'') ''1'' =
     (delete_failed, example_world) \<and>
   status delete_failed = 500 \<and>
   example_scan ''1'' ''A'' ''scan-1.jpg'' 80 ''Good'' 1000 \<in> set (scans example_world)"
  by (simp add: delete_scan_route_def auth_example_A delete_handler_def findOne_example_1
      existsSync_def)
    (simp add: example_db_def)

text \<open>
  C4, amended: the deletion of a scan is performed blob first, then record. For an owned
  record whose file exists: when the deletion of the blob fails the operation answers 500
  and changes nothing (the record is kept); when the deletion of the record fails after
  the blob is deleted the operation answers 500 and the blob stays deleted; it reports
  success when both deletions succeed, and then both are gone.
\<close>

theorem delete_blob_then_record:
  assumes "authenticateToken env fl w hdr = Inr u" and "\<not> scanFindThrows fl"
    and "Scan_findOne i (user_id u) (scans w) = Some s" and "existsSync w (filePath s)"
  shows "(unlinkThrows fl \<longrightarrow> delete_scan_route env fl w hdr i = (delete_failed, w)) \<and>
         (\<not> unlinkThrows fl \<and> scanDeleteThrows fl \<longrightarrow>
            delete_scan_route env fl w hdr i = (delete_failed, unlinkSync w (filePath s))) \<and>
         (\<not> unlinkThrows fl \<and> \<not> scanDeleteThrows fl \<longrightarrow>
            delete_scan_route env fl w hdr i =
              (success_message ''Scan deleted successfully'',
               (unlinkSync w (filePath s))\<lparr>scans := Scan_findByIdAndDelete i (scans w)\<rparr>)) \<and>
         status delete_failed = 500 \<and>
         status (success_message ''Scan deleted successfully'') = 200"
proof -
  have "scan_id s = i"
    using findOne_Some [OF assms(3)] by simp
  then show ?thesis
    using assms
    by (simp add: delete_scan_route_def delete_handler_def Let_def unlinkSync_def)
qed

theorem delete_blob_then_record_witness:
  "authenticateToken example_env db_delete_fails example_world (Some ''Bearer tokA'') =
     Inr (example_user ''A'') \<and>
   Scan_findOne ''1'' (user_id (example_user ''A'')) (scans example_world) =
     Some (example_scan ''1'' ''A'' ''scan-1.jpg'' 80 ''Good'' 1000) \<and>
   existsSync example_world (filePath (example_scan ''1'' ''A'' ''scan-1.jpg'' 80 ''Good'' 1000)) \<and>
   \<not> unlinkThrows db_delete_fails \<and> scanDeleteThrows db_delete_fails \<and>
   delete_scan_route example_env db_delete_fails example_world (Some ''Bearer tokA'') ''1'' =
     (delete_failed, example_world\<lparr>uploads :=
        {''scan-2.jpg'', ''scan-3.jpg'', ''scan-4.jpg'', ''scan-5.jpg''}\<rparr>) \<and>
   \<not> unlinkThrows no_faults \<and> \<not> scanDeleteThrows no_faults \<and>
   map scan_id (scans (snd (delete_scan_route example_env no_faults example_world
     (Some ''Bearer tokA'') ''1''))) = [''2'', ''3'', ''4'', ''5''] \<and>
   uploads (snd (delete_scan_route example_env no_faults example_world
     (Some ''Bearer tokA'') ''1'')) = {''scan-2.jpg'', ''scan-3.jpg'', ''scan-4.jpg'', ''scan-5.jpg''}"
proof -
  have a: "authenticateToken example_env fl example_world (Some ''Bearer tokA'') =
      Inr (example_user ''A'')" if "\<not> userFindThrows fl" for fl
    using that by (simp add: auth_example_A)
  have f: "Scan_findOne ''1'' (user_id (example_user ''A'')) (scans example_world) =
      Some (example_scan ''1'' ''A'' ''scan-1.jpg'' 80 ''Good'' 1000)"
    by (simp add: findOne_example_1)
  have e: "existsSync example_world (filePath (example_scan ''1'' ''A'' ''scan-1.jpg'' 80 ''Good'' 1000))"
    by (simp add: existsSync_def)
  note t1 = delete_blob_then_record [OF a [OF db_delete_fails_sel(3)] db_delete_fails_sel(1) f e]
  note t2 = delete_blob_then_record [OF a [OF no_faults_sel(4)] no_faults_sel(1) f e]
  have u: "unlinkSync example_world ''scan-1.jpg'' =
      example_world\<lparr>uploads := {''scan-2.jpg'', ''scan-3.jpg'', ''scan-4.jpg'', ''scan-5.jpg''}\<rparr>"
    by (auto simp: unlinkSync_def)
  have r1: "delete_scan_route example_env db_delete_fails example_world (Some ''Bearer tokA'') ''1'' =
     (delete_failed, example_world\<lparr>uploads :=
        {''scan-2.jpg'', ''scan-3.jpg'', ''scan-4.jpg'', ''scan-5.jpg''}\<rparr>)"
    using t1 u by simp
  have r2: "delete_scan_route example_env no_faults example_world (Some ''Bearer tokA'') ''1'' =
      (success_message ''Scan deleted successfully'',
       (unlinkSync example_world ''scan-1.jpg'')\<lparr>scans :=
          Scan_findByIdAndDelete ''1'' (scans example_world)\<rparr>)"
    using t2 by simp
  have d: "map scan_id (Scan_findByIdAndDelete ''1'' example_db) = [''2'', ''3'', ''4'', ''5'']"
    by (simp add: Scan_findByIdAndDelete_def example_db_def)
  show ?thesis
    using a [OF db_delete_fails_sel(3)] f e r1 d by (simp add: r2 u)
qed

subsection \<open>Deleting an account\<close>

text \<open>
  C3 asks that a successful account deletion remove every record of the account and every
  blob of those records. Account \<open>A\<close> owns the records 1, 3, 4 and 5, whose files exist, and
  deletes itself with the right password: the route answers 200, the records of \<open>A\<close> and
  the account are gone, and the uploads directory is exactly as before, the four files of
  the deleted records included. The handler calls \<open>Scan.deleteMany\<close> and
  \<open>User.findByIdAndDelete\<close> and never touches a file, where \<open>DELETE /:scanId\<close> unlinks
  the file of the record it deletes.
\<close>

theorem account_delete_leaves_blobs:
  "account_delete_route example_compare example_env no_faults example_world
     (Some ''Bearer tokA'') (Some ''secret123456'') =
     (success_message ''Account deleted successfully'',
      example_world\<lparr>scans := [example_scan_B], users := [example_user ''B'']\<rparr>) \<and>
   status (success_message ''Account deleted successfully'') = 200 \<and>
   uploads (example_world\<lparr>scans := [example_scan_B], users := [example_user ''B'']\<rparr>) =
     uploads example_world \<and>
   existsSync (example_world\<lparr>scans := [example_scan_B], users := [example_user ''B'']\<rparr>)
     ''scan-1.jpg'' \<and>
   existsSync (example_world\<lparr>scans := [example_scan_B], users := [example_user ''B'']\<rparr>)
     ''scan-3.jpg'' \<and>
   existsSync (example_world\<lparr>scans := [example_scan_B], users := [example_user ''B'']\<rparr>)
     ''scan-4.jpg'' \<and>
   existsSync (example_world\<lparr>scans := [example_scan_B], users := [example_user ''B'']\<rparr>)
     ''scan-5.jpg''"
proof -
  have f: "filter (\<lambda>s. userId s \<noteq> ''A'') example_db = [example_scan_B]"
    by (simp add: example_db_def example_scan_B_def)
  have "account_delete_route example_compare example_env no_faults example_world
     (Some ''Bearer tokA'') (Some ''secret123456'') =
     (success_message ''Account deleted successfully'',
      example_world\<lparr>scans := [example_scan_B], users := [example_user ''B'']\<rparr>)"
    by (simp add: account_delete_route_def auth_A account_delete_handler_def User_findById_def
        example_compare_def Let_def f)
  then show ?thesis
    by (simp add: existsSync_def)
qed

subsection \<open>Uploads\<close>

text \<open>
  C8 asks that an upload of a type outside the enumeration be answered with 400 and store
  no blob. Account \<open>A\<close> uploads \<open>notes.txt\<close> declared as \<open>text/plain\<close>: the filter passes
  a plain \<open>Error\<close> to \<open>next\<close>, the error-handling middleware finds no \<open>status\<close> on it and
  answers 500, where the same endpoint answers 400 for a request without a file and its
  \<open>catch\<close> has a 400 for the size error that multer's errors never reach. No file is
  stored: the world is unchanged.
\<close>

theorem unsupported_type_status_counterexample:
  "mimetype text_part = ''text/plain'' \<and>
   mimetype text_part \<notin> set allowedTypes \<and>
   analyze_route example_env no_faults example_ae example_draws example_world
     (Some ''Bearer tokA'') (Some text_part) =
     (Some (errorMiddleware invalid_file_type), example_world) \<and>
   status (errorMiddleware invalid_file_type) = 500"
  using analyze_route_refused [OF auth_A text_part_refused]
  by (simp add: text_part_refused) (simp add: text_part_def)

text \<open>
  C9: for an authenticated upload that is stored (an allowed type within the size limit),
  when the analysis rejects or the save of the record rejects, with an error other than
  multer's size-limit error, and \<open>fs.unlinkSync\<close> does not throw, the endpoint answers 500,
  the stored file does not exist afterwards and the collection of records is unchanged.
\<close>

theorem analyze_failure_cleans_blob:
  assumes "authenticateToken env fl w hdr = Inr u"
    and "mimetype p \<in> set allowedTypes" and "part_size p \<le> fileSizeLimit"
    and "analysisRejects fl = Some e \<or>
         (analysisRejects fl = None \<and>
          Scan_save fl ae u (stored_file ae p) (performFoodAnalysis d) (scans w) = Inl e)"
    and "err_code e \<noteq> Some ''LIMIT_FILE_SIZE''" and "\<not> unlinkThrows fl"
  shows "analyze_route env fl ae d w hdr (Some p) =
           (Some (failure 500 (if err_message e = [] then ''Internal server error during analysis''
                               else err_message e)),
            w\<lparr>uploads := uploads w - {storage_filename ae p}\<rparr>) \<and>
         \<not> existsSync (snd (analyze_route env fl ae d w hdr (Some p))) (storage_filename ae p) \<and>
         scans (snd (analyze_route env fl ae d w hdr (Some p))) = scans w"
proof -
  let ?w1 = "w\<lparr>uploads := insert (storage_filename ae p) (uploads w)\<rparr>"
  have "analyze_try fl ae d ?w1 (Some (stored_file ae p)) (Some u) = Inl e"
    using assms(4) by (auto simp: analyze_try_def)
  then have "analyze_handler fl ae d ?w1 (Some (stored_file ae p)) (Some u) =
      analyze_catch fl ?w1 (Some (stored_file ae p)) e"
    by (simp add: analyze_handler_def)
  then have r: "analyze_route env fl ae d w hdr (Some p) =
      (Some (failure 500 (if err_message e = [] then ''Internal server error during analysis''
                          else err_message e)),
       w\<lparr>uploads := uploads w - {storage_filename ae p}\<rparr>)"
    using analyze_route_stored [OF assms(1-3)] analyze_catch_cleanup [OF assms(6,5)]
    by simp
  show ?thesis
    unfolding r by (simp add: existsSync_def)
qed

theorem analyze_failure_cleans_blob_witness:
  "authenticateToken example_env no_faults example_world (Some ''Bearer tokA'') =
     Inr (example_user ''A'') \<and>
   mimetype blank_part \<in> set allowedTypes \<and> part_size blank_part \<le> fileSizeLimit \<and>
   analysisRejects no_faults = None \<and>
   Scan_save no_faults example_ae (example_user ''A'') (stored_file example_ae blank_part)
     (performFoodAnalysis example_draws) (scans example_world) =
     Inl (validation_error [(''fileName'', ''File name is required'')]) \<and>
   err_code (validation_error [(''fileName'', ''File name is required'')]) \<noteq> Some ''LIMIT_FILE_SIZE'' \<and>
   \<not> unlinkThrows no_faults \<and>
   analyze_route example_env no_faults example_ae example_draws example_world
     (Some ''Bearer tokA'') (Some blank_part) =
     (Some (failure 500 ''Scan validation failed: fileName: File name is required''), example_world) \<and>
   analyze_route example_env save_fails example_ae example_draws example_world
     (Some ''Bearer tokA'') (Some jpeg_part) =
     (Some (failure 500 ''connection lost''), example_world)"
proof -
  have a: "authenticateToken example_env save_fails example_world (Some ''Bearer tokA'') =
      Inr (example_user ''A'')"
    by (simp add: auth_example_A)
  have s1: "Scan_save no_faults example_ae (example_user ''A'') (stored_file example_ae blank_part)
      (performFoodAnalysis example_draws) (scans example_world) =
      Inl (validation_error [(''fileName'', ''File name is required'')])"
    by (simp add: Scan_save_def performFoodAnalysis_example validate_blank)
  have s2: "Scan_save save_fails example_ae (example_user ''A'') (stored_file example_ae jpeg_part)
      (performFoodAnalysis example_draws) (scans example_world) =
      Inl (plain_error ''connection lost'')"
    by (simp add: Scan_save_def performFoodAnalysis_example validate_jpeg)
  have c1: "err_code (validation_error [(''fileName'', ''File name is required'')]) \<noteq> Some ''LIMIT_FILE_SIZE''"
    by (simp add: validation_error_def)
  have c2: "err_code (plain_error ''connection lost'') \<noteq> Some ''LIMIT_FILE_SIZE''"
    by (simp add: plain_error_def)
  have f1: "analysisRejects no_faults = Some (validation_error [(''fileName'', ''File name is required'')]) \<or>
      (analysisRejects no_faults = None \<and>
       Scan_save no_faults example_ae (example_user ''A'') (stored_file example_ae blank_part)
         (performFoodAnalysis example_draws) (scans example_world) =
         Inl (validation_error [(''fileName'', ''File name is required'')]))"
    using s1 by simp
  have f2: "analysisRejects save_fails = Some (plain_error ''connection lost'') \<or>
      (analysisRejects save_fails = None \<and>
       Scan_save save_fails example_ae (example_user ''A'') (stored_file example_ae jpeg_part)
         (performFoodAnalysis example_draws) (scans example_world) =
         Inl (plain_error ''connection lost''))"
    using s2 by simp
  note t1 = analyze_failure_cleans_blob [OF auth_A blank_part_accepted f1 c1 no_faults_sel(6)]
  note t2 = analyze_failure_cleans_blob [OF a jpeg_part_accepted f2 c2 save_fails_sel(2)]
  have r1: "analyze_route example_env no_faults example_ae example_draws example_world
     (Some ''Bearer tokA'') (Some blank_part) =
     (Some (failure 500 ''Scan validation failed: fileName: File name is required''), example_world)"
    using t1 by (simp add: storage_filename_examples example_world_minus_new)
      (simp add: validation_error_def)
  have r2: "analyze_route example_env save_fails example_ae example_draws example_world
     (Some ''Bearer tokA'') (Some jpeg_part) =
     (Some (failure 500 ''connection lost''), example_world)"
    using t2 by (simp add: storage_filename_examples example_world_minus_new)
      (simp add: plain_error_def)
  show ?thesis
    using auth_A blank_part_accepted s1 c1 r1 r2 by simp
qed

subsection \<open>The placeholder analysis\<close>

text \<open>
  C10: for every sequence of draws of \<open>Math.random\<close> (each at least 0 and below 1, the
  engine's sort returning a permutation), the analysis has a quality score from 60 to 100,
  a confidence from 0.7 to 1, exactly 3 recommendations and at most 2 warnings; and a
  successful analyze call appends one record, the one it returns, with these values.
\<close>

theorem analyze_record_ranges:
  assumes "0 \<le> d_score d" and "d_score d < 1" and "0 \<le> d_conf d" and "d_conf d < 1"
    and "mset (d_sort d all_recommendations) = mset all_recommendations"
  shows "60 \<le> a_qualityScore (performFoodAnalysis d) \<and>
         a_qualityScore (performFoodAnalysis d) \<le> 100 \<and>
         7 / 10 \<le> confidence (a_metadata (performFoodAnalysis d)) \<and>
         confidence (a_metadata (performFoodAnalysis d)) \<le> 1 \<and>
         length (a_recommendations (performFoodAnalysis d)) = 3 \<and>
         length (a_warnings (performFoodAnalysis d)) \<le> 2 \<and>
         (analyze_route env fl ae d w hdr part = (Some r, w') \<and> status r = 200 \<longrightarrow>
            (\<exists>s. scans w' = scans w @ [s] \<and> r = analyze_success s \<and>
                 60 \<le> qualityScore s \<and> qualityScore s \<le> 100 \<and>
                 7 / 10 \<le> confidence (analysisMetadata s) \<and> confidence (analysisMetadata s) \<le> 1 \<and>
                 length (recommendations s) = 3 \<and> length (warnings s) \<le> 2))"
proof -
  note b = analysis_bounds [OF assms]
  have fn: "60 \<le> a_qualityScore (performFoodAnalysis d)"
    "a_qualityScore (performFoodAnalysis d) \<le> 100"
    "7 / 10 \<le> confidence (a_metadata (performFoodAnalysis d))"
    "confidence (a_metadata (performFoodAnalysis d)) \<le> 1"
    "length (a_recommendations (performFoodAnalysis d)) = 3"
    "length (a_warnings (performFoodAnalysis d)) \<le> 2"
    using b by simp_all
  have rt: "\<exists>s. scans w' = scans w @ [s] \<and> r = analyze_success s \<and>
                 60 \<le> qualityScore s \<and> qualityScore s \<le> 100 \<and>
                 7 / 10 \<le> confidence (analysisMetadata s) \<and> confidence (analysisMetadata s) \<le> 1 \<and>
                 length (recommendations s) = 3 \<and> length (warnings s) \<le> 2"
    if "analyze_route env fl ae d w hdr part = (Some r, w')" "status r = 200"
  proof -
    from analyze_route_ok [OF that] obtain u p where
      r: "r = analyze_success (new_Scan ae u (stored_file ae p) (performFoodAnalysis d))" and
      w': "w' = w\<lparr>uploads := insert (storage_filename ae p) (uploads w),
                   scans := scans w @ [new_Scan ae u (stored_file ae p) (performFoodAnalysis d)]\<rparr>"
      by blast
    show ?thesis
      using fn by (intro exI [of _ "new_Scan ae u (stored_file ae p) (performFoodAnalysis d)"])
        (simp add: r w')
  qed
  show ?thesis
    using fn rt by blast
qed

theorem analyze_record_ranges_witness:
  "0 \<le> d_score example_draws \<and> d_score example_draws < 1 \<and>
   0 \<le> d_conf example_draws \<and> d_conf example_draws < 1 \<and>
   mset (d_sort example_draws all_recommendations) = mset all_recommendations \<and>
   analyze_route example_env no_faults example_ae example_draws example_world
     (Some ''Bearer tokA'') (Some jpeg_part) =
     (Some (analyze_success example_new_scan), example_world_after) \<and>
   status (analyze_success example_new_scan) = 200 \<and>
   scans example_world_after = scans example_world @ [example_new_scan] \<and>
   qualityScore example_new_scan = 80 \<and>
   confidence (analysisMetadata example_new_scan) = 17 / 20 \<and>
   length (recommendations example_new_scan) = 3 \<and>
   length (warnings example_new_scan) = 2 \<and>
   60 \<le> a_qualityScore (performFoodAnalysis example_draws) \<and>
   a_qualityScore (performFoodAnalysis example_draws) \<le> 100"
proof -
  note t = analyze_record_ranges [OF example_draws_in_range]
  have v: "qualityScore example_new_scan = 80"
    "confidence (analysisMetadata example_new_scan) = 17 / 20"
    "length (recommendations example_new_scan) = 3"
    "length (warnings example_new_scan) = 2"
    "scans example_world_after = scans example_world @ [example_new_scan]"
    by (simp_all add: example_new_scan_def example_analysis_def example_world_after_def)
  have q: "60 \<le> a_qualityScore (performFoodAnalysis example_draws) \<and>
      a_qualityScore (performFoodAnalysis example_draws) \<le> 100"
    using t by blast
  show ?thesis
    using example_draws_in_range analyze_example v q by simp
qed

subsection \<open>The blob name in a response\<close>




end
